theory Spec2Isabelle
  imports Complex_Main
begin

section \<open>Data model\<close>

text \<open>
  The repository splits a raster image into a grid of tiles (class \<open>ImageProcessor\<close>,
  \<^verbatim>\<open>src/modules/imageProcessor.js\<close>) and lays every tile out on one page of a PDF
  document (class \<open>PDFGenerator\<close>). The tables of paper sizes and division patterns
  are in \<^verbatim>\<open>src/utils/constants.js\<close>.

  Errors are values. \<open>Error m\<close> is \<^verbatim>\<open>new Error(m)\<close>; \<open>TypeError\<close> is what the engine
  throws when a property of \<^verbatim>\<open>undefined\<close> is read; \<open>External m\<close> is an exception
  raised inside a collaborator (the canvas, the PDF library); \<open>PDFError e\<close> is the
  error that \<open>generatePDF\<close> rethrows around \<open>e\<close>, whose message is the message of
  \<open>e\<close> after the prefix \<^verbatim>\<open>Error al generar PDF: \<close>.
\<close>

datatype error = Error string | TypeError | External string | PDFError error

text \<open>
  Reading \<^verbatim>\<open>obj[key]\<close> on an object literal finds the literal's own properties and,
  through the prototype chain, the members of \<^verbatim>\<open>Object.prototype\<close>; any other key
  gives \<^verbatim>\<open>undefined\<close>. An own property of the tables below is an object, an
  inherited member is a function or an object: both are truthy.
\<close>

datatype 'a js_property = Own 'a | Inherited | Undefined

definition objectPrototypeKeys :: "string list" where
  "objectPrototypeKeys =
     [''constructor'', ''hasOwnProperty'', ''isPrototypeOf'', ''propertyIsEnumerable'',
      ''toLocaleString'', ''toString'', ''valueOf'', ''__proto__'',
      ''__defineGetter__'', ''__defineSetter__'', ''__lookupGetter__'', ''__lookupSetter__'']"

definition js_get :: "(string \<times> 'a) list \<Rightarrow> string \<Rightarrow> 'a js_property" where
  "js_get obj key =
     (case map_of obj key of
        Some v \<Rightarrow> Own v
      | None \<Rightarrow> if key \<in> set objectPrototypeKeys then Inherited else Undefined)"

text \<open>
  The width and height of an image element and the \<open>dimensions\<close> of a part are pairs
  of pixel counts. Of the loaded \<open>HTMLImageElement\<close> the code reads only these two.
\<close>

record dimensions =
  width :: nat
  height :: nat

type_synonym image = dimensions

record position =
  row :: nat
  col :: nat

text \<open>An entry of the table local to \<open>getGridDimensions\<close>.\<close>

record grid =
  rows :: nat
  cols :: nat
  paperSize :: string

text \<open>
  A part as \<open>divideImage\<close> builds it (\<open>partInfo\<close>). The fields \<open>canvas\<close>,
  \<open>imageData\<close> and \<open>dataURL\<close> all hold the pixels that the canvas returned for the
  part; they are one field \<open>pixels\<close> here. The part's \<open>paperSize\<close> field is
  \<open>part_paperSize\<close>, since the grid entry owns the name.
\<close>

record 'px part =
  pixels :: 'px
  position :: position
  dimensions :: dimensions
  part_paperSize :: string
  dpi :: nat
  partNumber :: nat
  totalParts :: nat

record 'px ImageProcessor =
  originalImage :: "image option"
  imageParts :: "'px part list"

text \<open>
  The canvas is a collaborator: \<open>ext img sx sy w h\<close> stands for drawing the source
  rectangle with corner \<open>(sx, sy)\<close> and size \<open>w \<times> h\<close> of \<open>img\<close> on the canvas
  (\<open>drawImage\<close>) and reading it back (\<open>getImageData\<close>, \<open>toDataURL\<close>). It returns
  the pixels or raises.
\<close>

type_synonym 'px extractor = "image \<Rightarrow> nat \<Rightarrow> nat \<Rightarrow> nat \<Rightarrow> nat \<Rightarrow> error + 'px"

section \<open>Partitioning: \<open>ImageProcessor\<close>\<close>

definition patterns :: "(string \<times> grid) list" where
  "patterns =
     [(''A4_2x1'', \<lparr>rows = 2, cols = 1, paperSize = ''A4''\<rparr>),
      (''A4_1x2'', \<lparr>rows = 1, cols = 2, paperSize = ''A4''\<rparr>),
      (''A4_2x2'', \<lparr>rows = 2, cols = 2, paperSize = ''A4''\<rparr>),
      (''A3_SINGLE'', \<lparr>rows = 1, cols = 1, paperSize = ''A3''\<rparr>),
      (''A3_2x1'', \<lparr>rows = 2, cols = 1, paperSize = ''A3''\<rparr>),
      (''A3_1x2'', \<lparr>rows = 1, cols = 2, paperSize = ''A3''\<rparr>),
      (''A3_2x2'', \<lparr>rows = 2, cols = 2, paperSize = ''A3''\<rparr>)]"

text \<open>\<^verbatim>\<open>return patterns[pattern] || patterns['A4_2x2'];\<close>\<close>

definition getGridDimensions :: "string \<Rightarrow> grid js_property" where
  "getGridDimensions pattern =
     (case js_get patterns pattern of
        Undefined \<Rightarrow> js_get patterns ''A4_2x2''
      | found \<Rightarrow> found)"

definition partInfo :: "'px \<Rightarrow> grid \<Rightarrow> nat \<Rightarrow> nat \<Rightarrow> nat \<Rightarrow> nat \<Rightarrow> nat \<Rightarrow> 'px part" where
  "partInfo px g dpi_arg partWidth partHeight r c =
     \<lparr>pixels = px,
      position = \<lparr>row = r, col = c\<rparr>,
      dimensions = \<lparr>width = partWidth, height = partHeight\<rparr>,
      part_paperSize = paperSize g,
      dpi = dpi_arg,
      partNumber = r * cols g + c + 1,
      totalParts = rows g * cols g\<rparr>"

text \<open>
  The inner loop \<^verbatim>\<open>for (let col = 0; col < cols; col++)\<close>. It pushes one part per
  column on \<open>imageParts\<close>; an exception of the canvas leaves the loop with the parts
  pushed so far.
\<close>

function col_loop ::
  "'px extractor \<Rightarrow> image \<Rightarrow> grid \<Rightarrow> nat \<Rightarrow> nat \<Rightarrow> nat \<Rightarrow> nat \<Rightarrow> nat \<Rightarrow> 'px part list
     \<Rightarrow> error option \<times> 'px part list" where
  "col_loop ext img g dpi_arg partWidth partHeight r c parts =
     (if c < cols g then
        (let sourceX = c * partWidth; sourceY = r * partHeight in
         case ext img sourceX sourceY partWidth partHeight of
           Inl e \<Rightarrow> (Some e, parts)
         | Inr px \<Rightarrow>
             col_loop ext img g dpi_arg partWidth partHeight r (Suc c)
               (parts @ [partInfo px g dpi_arg partWidth partHeight r c]))
      else (None, parts))"
  by pat_completeness auto
termination
  by (relation "measure (\<lambda>(ext, img, g, dpi_arg, partWidth, partHeight, r, c, parts). cols g - c)")
    auto

text \<open>The outer loop \<^verbatim>\<open>for (let row = 0; row < rows; row++)\<close>.\<close>

function row_loop ::
  "'px extractor \<Rightarrow> image \<Rightarrow> grid \<Rightarrow> nat \<Rightarrow> nat \<Rightarrow> nat \<Rightarrow> nat \<Rightarrow> 'px part list
     \<Rightarrow> error option \<times> 'px part list" where
  "row_loop ext img g dpi_arg partWidth partHeight r parts =
     (if r < rows g then
        (case col_loop ext img g dpi_arg partWidth partHeight r 0 parts of
           (Some e, parts') \<Rightarrow> (Some e, parts')
         | (None, parts') \<Rightarrow> row_loop ext img g dpi_arg partWidth partHeight (Suc r) parts')
      else (None, parts))"
  by pat_completeness auto
termination
  by (relation "measure (\<lambda>(ext, img, g, dpi_arg, partWidth, partHeight, r, parts). rows g - r)")
    auto

text \<open>
  \<open>divideImage\<close> returns the parts or the error, and the processor with its
  \<open>imageParts\<close> replaced. Without an image it throws before anything else. The
  destructuring \<^verbatim>\<open>const { rows, cols, paperSize } = ...\<close> throws on \<^verbatim>\<open>undefined\<close>;
  on an inherited member of \<^verbatim>\<open>Object.prototype\<close> it binds the three names to
  \<^verbatim>\<open>undefined\<close>, the test \<^verbatim>\<open>0 < undefined\<close> of the outer loop is false, and the
  empty array is returned. \<open>Math.floor\<close> of the quotient is \<open>div\<close>: every entry of
  the table has positive \<open>rows\<close> and \<open>cols\<close>.
\<close>

definition divideImage ::
  "'px extractor \<Rightarrow> string \<Rightarrow> nat \<Rightarrow> 'px ImageProcessor
     \<Rightarrow> (error + 'px part list) \<times> 'px ImageProcessor" where
  "divideImage ext pattern dpi_arg this =
     (case originalImage this of
        None \<Rightarrow> (Inl (Error ''No hay imagen cargada''), this)
      | Some img \<Rightarrow>
          (case getGridDimensions pattern of
             Undefined \<Rightarrow> (Inl TypeError, this)
           | Inherited \<Rightarrow> (Inr [], this\<lparr>imageParts := []\<rparr>)
           | Own g \<Rightarrow>
               (let originalWidth = width img;
                    originalHeight = height img;
                    partWidth = originalWidth div cols g;
                    partHeight = originalHeight div rows g
                in case row_loop ext img g dpi_arg partWidth partHeight 0 [] of
                     (Some e, parts) \<Rightarrow> (Inl e, this\<lparr>imageParts := parts\<rparr>)
                   | (None, parts) \<Rightarrow> (Inr parts, this\<lparr>imageParts := parts\<rparr>))))"

section \<open>Tables of \<^verbatim>\<open>constants.js\<close>\<close>

text \<open>
  \<open>PAPER_SIZES\<close>: the sheet in millimetres (\<open>width\<close>, \<open>height\<close> in the source,
  \<open>width_mm\<close>, \<open>height_mm\<close> here) and in pixels at 300 DPI.
\<close>

record paper =
  name :: string
  width_mm :: nat
  height_mm :: nat
  widthPx :: nat
  heightPx :: nat

definition PAPER_SIZES :: "(string \<times> paper) list" where
  "PAPER_SIZES =
     [(''A4'', \<lparr>name = ''A4'', width_mm = 210, height_mm = 297, widthPx = 2480, heightPx = 3508\<rparr>),
      (''A3'', \<lparr>name = ''A3'', width_mm = 297, height_mm = 420, widthPx = 3508, heightPx = 4961\<rparr>)]"

text \<open>
  \<open>DIVISION_PATTERNS\<close>: the entries extend a grid entry by the optional \<open>landscape\<close>
  flag (\<open>None\<close> where the source has no such property). The display strings \<open>name\<close>
  and \<open>description\<close> are left out.
\<close>

record division_pattern = grid +
  landscape :: "bool option"

definition DIVISION_PATTERNS :: "(string \<times> division_pattern) list" where
  "DIVISION_PATTERNS =
     [(''A4_2x1'', \<lparr>rows = 2, cols = 1, paperSize = ''A4'', landscape = None\<rparr>),
      (''A4_1x2'', \<lparr>rows = 1, cols = 2, paperSize = ''A4'', landscape = None\<rparr>),
      (''A4_2x2'', \<lparr>rows = 2, cols = 2, paperSize = ''A4'', landscape = Some False\<rparr>),
      (''A4_2x2_H'', \<lparr>rows = 2, cols = 2, paperSize = ''A4'', landscape = Some True\<rparr>),
      (''A3_SINGLE'', \<lparr>rows = 1, cols = 1, paperSize = ''A3'', landscape = None\<rparr>),
      (''A3_2x1'', \<lparr>rows = 2, cols = 1, paperSize = ''A3'', landscape = None\<rparr>),
      (''A3_1x2'', \<lparr>rows = 1, cols = 2, paperSize = ''A3'', landscape = None\<rparr>),
      (''A3_2x2'', \<lparr>rows = 2, cols = 2, paperSize = ''A3'', landscape = Some False\<rparr>),
      (''A3_2x2_H'', \<lparr>rows = 2, cols = 2, paperSize = ''A3'', landscape = Some True\<rparr>)]"

text \<open>
  \<^verbatim>\<open>Math.round((mm * dpi) / 25.4)\<close>; \<open>Math.round\<close> rounds to the nearest integer, a
  half upwards. Numbers are exact reals here, not doubles.
\<close>

definition convertMmToPx :: "real \<Rightarrow> real \<Rightarrow> int" where
  "convertMmToPx mm dpi_arg = \<lfloor>(mm * dpi_arg) / (254 / 10) + 1 / 2\<rfloor>"

section \<open>Page layout: \<open>PDFGenerator\<close>\<close>

text \<open>
  A page of the document is its size and the draw calls made on it, in order:
  \<open>DrawImage image x y width height\<close>, \<open>DrawLine start end color\<close> and
  \<open>DrawText text x y size color\<close> (the font is the one font of the document).
  Coordinates are the PDF library's, with the origin in the bottom-left corner.
  A finite JavaScript number is the real number it denotes. All draw calls but the
  one of \<open>addImageToPage_double\<close> are computed without rounding; a division by zero
  (which gives \<open>Infinity\<close> or \<open>NaN\<close> in the source) is outside the model.
\<close>

type_synonym point = "real \<times> real"
type_synonym color = "real \<times> real \<times> real"

datatype 'img draw =
    DrawImage 'img real real real real
  | DrawLine point point color
  | DrawText string real real real color

record 'img page =
  pageWidth :: real
  pageHeight :: real
  content :: "'img draw list"

text \<open>The font is a collaborator; the code uses its \<open>widthOfTextAtSize\<close>.\<close>

type_synonym font = "string \<Rightarrow> real \<Rightarrow> real"

text \<open>
  The options of \<open>generatePDF\<close>; the source's \<open>paperSize\<close> is \<open>opt_paperSize\<close>.
  \<open>pattern\<close> is \<open>null\<close> or an entry of \<open>DIVISION_PATTERNS\<close>.
\<close>

record options =
  opt_paperSize :: string
  pattern :: "division_pattern option"
  margins :: real
  addGuides :: bool
  addPageNumbers :: bool

definition rgb :: "real \<Rightarrow> real \<Rightarrow> real \<Rightarrow> color" where
  "rgb r g b = (r, g, b)"

definition drawOn :: "'img page \<Rightarrow> 'img draw \<Rightarrow> 'img page" where
  "drawOn pg d = pg\<lparr>content := content pg @ [d]\<rparr>"

text \<open>
  \<open>addImageToPage\<close> in exact arithmetic, with the \<open>margins\<close> argument named
  \<open>margin\<close>. For a width or height of zero the source divides by zero and the
  quotients below are not the source's; the properties of the placement are stated
  for positive width and height.
\<close>

definition addImageToPage :: "'img page \<Rightarrow> 'img \<Rightarrow> dimensions \<Rightarrow> real \<Rightarrow> 'img page" where
  "addImageToPage pg img dims margin =
     (let pgWidth = pageWidth pg;
          pgHeight = pageHeight pg;
          maxWidth = pgWidth - margin * (12 / 10);
          maxHeight = pgHeight - margin * (12 / 10);
          scale = min (maxWidth / real (width dims)) (maxHeight / real (height dims));
          finalWidth = real (width dims) * scale;
          finalHeight = real (height dims) * scale;
          x = (pgWidth - finalWidth) / 2;
          y = (pgHeight - finalHeight) / 2
      in drawOn pg (DrawImage img x y finalWidth finalHeight))"

subsection \<open>The placement in double precision\<close>

text \<open>
  The numbers of the source are IEEE 754 doubles, and every arithmetic operation
  gives the double nearest to the exact result, a tie going to the neighbour with
  the even significand. \<open>binade k x\<close> is the largest \<open>e\<close> from \<open>- 1022\<close> to
  \<open>k - 1022\<close> with \<open>2 powi e \<le> \<bar>x\<bar>\<close>, and \<open>- 1022\<close> when there is none; \<open>exponent x\<close>
  is the binary exponent of \<open>x\<close>, which does not go below \<open>- 1022\<close> (smaller numbers
  are subnormal) nor above 1023; the doubles next to \<open>x\<close> are \<open>ulp x\<close> apart, since
  a significand has 53 bits. \<open>double x\<close> is the double nearest to the real \<open>x\<close>. A
  result of magnitude \<open>2 ^ 1024\<close> or more is \<open>Infinity\<close> in the source and is
  outside the model.
\<close>

primrec binade :: "nat \<Rightarrow> real \<Rightarrow> int" where
  "binade 0 x = - 1022"
| "binade (Suc k) x = (if 2 powi (int k - 1021) \<le> \<bar>x\<bar> then int k - 1021 else binade k x)"

definition exponent :: "real \<Rightarrow> int" where
  "exponent x = binade 2045 x"

definition ulp :: "real \<Rightarrow> real" where
  "ulp x = 2 powi (exponent x - 52)"

definition roundHalfEven :: "real \<Rightarrow> int" where
  "roundHalfEven y =
     (let f = \<lfloor>y\<rfloor>
      in if y - of_int f < 1 / 2 then f
         else if 1 / 2 < y - of_int f then f + 1
         else if even f then f else f + 1)"

definition double :: "real \<Rightarrow> real" where
  "double x = of_int (roundHalfEven (x / ulp x)) * ulp x"

text \<open>
  \<^verbatim>\<open>pageWidth - margins * 1.2\<close> as the source evaluates it: the literal \<^verbatim>\<open>1.2\<close> is
  the double nearest to 12/10, and the product and the difference are rounded.
\<close>

definition usable :: "real \<Rightarrow> real \<Rightarrow> real" where
  "usable extent margin = double (extent - double (margin * double (12 / 10)))"

text \<open>
  \<open>addImageToPage\<close> as the source computes it, every operation rounded to a double.
  The page size and the margin are doubles; the width and the height of a tile are
  integers up to \<open>2 ^ 53\<close>, which are doubles. \<open>Math.min\<close> returns one of its
  arguments and does not round.
\<close>

definition addImageToPage_double :: "'img page \<Rightarrow> 'img \<Rightarrow> dimensions \<Rightarrow> real \<Rightarrow> 'img page" where
  "addImageToPage_double pg img dims margin =
     (let pgWidth = pageWidth pg;
          pgHeight = pageHeight pg;
          maxWidth = usable pgWidth margin;
          maxHeight = usable pgHeight margin;
          scale = min (double (maxWidth / real (width dims))) (double (maxHeight / real (height dims)));
          finalWidth = double (real (width dims) * scale);
          finalHeight = double (real (height dims) * scale);
          x = double (double (pgWidth - finalWidth) / 2);
          y = double (double (pgHeight - finalHeight) / 2)
      in drawOn pg (DrawImage img x y finalWidth finalHeight))"

subsection \<open>Guides and labels\<close>

text \<open>
  \<open>addCuttingGuides\<close> draws the four lines of the source, in the source's order; the
  source ends with the comment \<^verbatim>\<open>// Esquinas inferiores similares...\<close> and draws
  nothing more.
\<close>

definition addCuttingGuides :: "'img page \<Rightarrow> real \<Rightarrow> 'img page" where
  "addCuttingGuides pg margin =
     (let guideLength = 15;
          pgWidth = pageWidth pg;
          pgHeight = pageHeight pg;
          guideColor = rgb (8 / 10) (8 / 10) (8 / 10);
          pg = drawOn pg (DrawLine (margin, margin) (margin + guideLength, margin) guideColor);
          pg = drawOn pg (DrawLine (margin, margin) (margin, margin + guideLength) guideColor);
          pg = drawOn pg (DrawLine (pgWidth - margin - guideLength, margin)
                                   (pgWidth - margin, margin) guideColor);
          pg = drawOn pg (DrawLine (pgWidth - margin, margin)
                                   (pgWidth - margin, margin + guideLength) guideColor)
      in pg)"

text \<open>
  A template literal prints a natural number in decimal. A \<open>char\<close> is one UTF-16 code
  unit below 256: \<open>CHR 0xE1\<close> is the a with acute accent, \<open>CHR 0xF3\<close> the o with
  acute accent.
\<close>

definition digit :: "nat \<Rightarrow> char" where
  "digit d = ''0123456789'' ! d"

fun string_of_nat :: "nat \<Rightarrow> string" where
  "string_of_nat n = (if n < 10 then [digit n] else string_of_nat (n div 10) @ [digit (n mod 10)])"

definition pageNumberText :: "nat \<Rightarrow> nat \<Rightarrow> string" where
  "pageNumberText current total_arg =
     ''P'' @ [CHR 0xE1] @ ''gina '' @ string_of_nat current @ '' de '' @ string_of_nat total_arg"

definition addPageNumber :: "'img page \<Rightarrow> font \<Rightarrow> nat \<Rightarrow> nat \<Rightarrow> 'img page" where
  "addPageNumber pg widthOfTextAtSize current total_arg =
     (let text = pageNumberText current total_arg;
          textWidth = widthOfTextAtSize text 10
      in drawOn pg (DrawText text (pageWidth pg - textWidth - 30) 20 10
                      (rgb (5 / 10) (5 / 10) (5 / 10))))"

definition partInfoText :: "'px part \<Rightarrow> string" where
  "partInfoText p =
     ''Posici'' @ [CHR 0xF3] @ ''n: Fila '' @ string_of_nat (row (position p) + 1)
       @ '', Columna '' @ string_of_nat (col (position p) + 1)
       @ '' | '' @ part_paperSize p @ '' | '' @ string_of_nat (dpi p) @ '' DPI''"

definition addPartInfo :: "'img page \<Rightarrow> 'px part \<Rightarrow> 'img page" where
  "addPartInfo pg p =
     drawOn pg (DrawText (partInfoText p) 30 (pageHeight pg - 20) 10
                  (rgb (5 / 10) (5 / 10) (5 / 10)))"

text \<open>
  \<^verbatim>\<open>const isLandscape = pattern && pattern.landscape === true;\<close> is false for
  \<open>null\<close> and for an entry without the flag.

  The body of the loop of \<open>generatePDF\<close> for the part at \<open>index\<close>. \<open>embedPng\<close> is
  the PDF library decoding the part's pixels (\<open>embedImage\<close>); it may raise. Reading
  \<open>heightPx\<close> of \<^verbatim>\<open>undefined\<close> throws; an inherited member of
  \<^verbatim>\<open>Object.prototype\<close> has no \<open>widthPx\<close>, and the library rejects a page size that
  is not a pair of numbers.
\<close>

definition isLandscape :: "division_pattern option \<Rightarrow> bool" where
  "isLandscape pat = (case pat of None \<Rightarrow> False | Some entry \<Rightarrow> landscape entry = Some True)"

definition composePage ::
  "('px \<Rightarrow> error + 'img) \<Rightarrow> font \<Rightarrow> options \<Rightarrow> nat \<Rightarrow> nat \<Rightarrow> 'px part \<Rightarrow> error + 'img page" where
  "composePage embedPng fnt opts total_arg index p =
     (case js_get PAPER_SIZES (opt_paperSize opts) of
           Undefined \<Rightarrow> Inl TypeError
         | Inherited \<Rightarrow> Inl (External ''addPage'')
         | Own sheet \<Rightarrow>
             (let pgWidth = (if isLandscape (pattern opts) then heightPx sheet else widthPx sheet);
                  pgHeight = (if isLandscape (pattern opts) then widthPx sheet else heightPx sheet);
                  pg = \<lparr>pageWidth = real pgWidth, pageHeight = real pgHeight, content = []\<rparr>
              in case embedPng (pixels p) of
                   Inl e \<Rightarrow> Inl e
                 | Inr img \<Rightarrow>
                     (let pg = addImageToPage pg img (dimensions p) (margins opts);
                          pg = (if addGuides opts then addCuttingGuides pg (margins opts) else pg);
                          pg = (if addPageNumbers opts
                                then addPageNumber pg fnt (index + 1) total_arg else pg);
                          pg = addPartInfo pg p
                      in Inr pg)))"

text \<open>
  \<^verbatim>\<open>for (const [index, part] of imageParts.entries())\<close>: the pages are added to the
  document in the order of the parts; the first exception ends the loop.
\<close>

fun page_loop ::
  "('px \<Rightarrow> error + 'img) \<Rightarrow> font \<Rightarrow> options \<Rightarrow> nat \<Rightarrow> nat \<Rightarrow> 'px part list \<Rightarrow> 'img page list
     \<Rightarrow> error + 'img page list" where
  "page_loop embedPng fnt opts total_arg index [] doc = Inr doc"
| "page_loop embedPng fnt opts total_arg index (p # rest) doc =
     (case composePage embedPng fnt opts total_arg index p of
        Inl e \<Rightarrow> Inl e
      | Inr pg \<Rightarrow> page_loop embedPng fnt opts total_arg (index + 1) rest (doc @ [pg]))"

text \<open>
  \<^verbatim>\<open>return await this.pdfDoc.save();\<close> serialises the document. The PDF library's
  \<open>save\<close> first adds one empty page of its default size, 595.28 by 841.89, to a
  document that has no page; a document with pages is saved as it is.
\<close>

definition defaultPage :: "'img page" where
  "defaultPage = \<lparr>pageWidth = 59528 / 100, pageHeight = 84189 / 100, content = []\<rparr>"

definition save :: "'img page list \<Rightarrow> 'img page list" where
  "save doc = (if doc = [] then [defaultPage] else doc)"

text \<open>
  \<open>generatePDF\<close> returns the pages of the saved document, or the error of the
  \<open>catch\<close> clause.
\<close>

definition generatePDF ::
  "('px \<Rightarrow> error + 'img) \<Rightarrow> font \<Rightarrow> 'px part list \<Rightarrow> options \<Rightarrow> error + 'img page list" where
  "generatePDF embedPng fnt parts opts =
     (case page_loop embedPng fnt opts (length parts) 0 parts [] of
        Inl e \<Rightarrow> Inl (PDFError e)
      | Inr doc \<Rightarrow> Inr (save doc))"

section \<open>The export: \<open>App.exportPDF\<close>\<close>

text \<open>
  Of the application the export reads the processor, the loaded file (\<open>null\<close> until
  a file is loaded), the selected pattern id and the selected DPI.
\<close>

record 'px App =
  imageProcessor :: "'px ImageProcessor"
  currentFile :: "string option"
  currentPattern :: string
  currentDpi :: nat

text \<open>
  \<open>exportPDF\<close> divides the image and hands the parts to \<open>generatePDF\<close> with the
  paper size and the entry of \<open>DIVISION_PATTERNS\<close> for the selected pattern, a
  margin of 8, guides and page numbers. The result is the document offered for
  download, or the error whose message the \<open>catch\<close> clause shows. For an inherited
  member of \<^verbatim>\<open>Object.prototype\<close> the property \<open>paperSize\<close> is \<^verbatim>\<open>undefined\<close>, which
  the default \<^verbatim>\<open>paperSize = "A4"\<close> of \<open>generatePDF\<close> replaces, and the member has no
  \<open>landscape\<close> property, so that it counts as \<open>null\<close> does.
\<close>

definition exportPDF ::
  "'px extractor \<Rightarrow> ('px \<Rightarrow> error + 'img) \<Rightarrow> font \<Rightarrow> 'px App
     \<Rightarrow> (error + 'img page list) \<times> 'px App" where
  "exportPDF ext embedPng fnt app =
     (case currentFile app of
        None \<Rightarrow> (Inl (Error ''No hay imagen cargada''), app)
      | Some file \<Rightarrow>
          (case divideImage ext (currentPattern app) (currentDpi app) (imageProcessor app) of
             (Inl e, this) \<Rightarrow> (Inl e, app\<lparr>imageProcessor := this\<rparr>)
           | (Inr parts, this) \<Rightarrow>
               (case js_get DIVISION_PATTERNS (currentPattern app) of
                  Undefined \<Rightarrow> (Inl TypeError, app\<lparr>imageProcessor := this\<rparr>)
                | Inherited \<Rightarrow>
                    (generatePDF embedPng fnt parts
                       \<lparr>opt_paperSize = ''A4'', pattern = None, margins = 8,
                        addGuides = True, addPageNumbers = True\<rparr>,
                     app\<lparr>imageProcessor := this\<rparr>)
                | Own entry \<Rightarrow>
                    (generatePDF embedPng fnt parts
                       \<lparr>opt_paperSize = paperSize entry, pattern = Some entry, margins = 8,
                        addGuides = True, addPageNumbers = True\<rparr>,
                     app\<lparr>imageProcessor := this\<rparr>))))"

section \<open>Notions used in the statements\<close>

text \<open>
  The part that an undisturbed run of \<open>divideImage\<close> pushes for the grid position
  \<open>(r, c)\<close>, and the list of all of them in the order of the iteration.
\<close>

definition tile :: "'px extractor \<Rightarrow> image \<Rightarrow> grid \<Rightarrow> nat \<Rightarrow> nat \<Rightarrow> nat \<Rightarrow> nat \<Rightarrow> nat \<Rightarrow> 'px part" where
  "tile ext img g dpi_arg partWidth partHeight r c =
     partInfo (projr (ext img (c * partWidth) (r * partHeight) partWidth partHeight))
       g dpi_arg partWidth partHeight r c"

definition gridParts :: "'px extractor \<Rightarrow> image \<Rightarrow> grid \<Rightarrow> nat \<Rightarrow> nat \<Rightarrow> nat \<Rightarrow> 'px part list" where
  "gridParts ext img g dpi_arg partWidth partHeight =
     concat (map (\<lambda>r. map (tile ext img g dpi_arg partWidth partHeight r) [0..<cols g]) [0..<rows g])"

text \<open>
  The canvas returns pixels for every source rectangle that \<open>divideImage\<close> asks
  for: the source image supports region extraction.
\<close>

definition extractable :: "'px extractor \<Rightarrow> image \<Rightarrow> grid \<Rightarrow> bool" where
  "extractable ext img g =
     (\<forall>r<rows g. \<forall>c<cols g.
        \<not> isl (ext img (c * (width img div cols g)) (r * (height img div rows g))
                 (width img div cols g) (height img div rows g)))"

text \<open>
  The pixel coordinates of the source rectangle with corner \<open>(sx, sy)\<close> and size
  \<open>sw \<times> sh\<close>, as \<open>drawImage\<close> reads its arguments.
\<close>

definition region :: "nat \<Rightarrow> nat \<Rightarrow> nat \<Rightarrow> nat \<Rightarrow> (nat \<times> nat) set" where
  "region sx sy sw sh = {sx..<sx + sw} \<times> {sy..<sy + sh}"

text \<open>
  The canvas returns pixels for every source rectangle that is not empty and lies
  inside the image.
\<close>

definition delivers :: "'px extractor \<Rightarrow> image \<Rightarrow> bool" where
  "delivers ext img =
     (\<forall>sx sy sw sh. 0 < sw \<longrightarrow> 0 < sh \<longrightarrow> sx + sw \<le> width img \<longrightarrow> sy + sh \<le> height img
        \<longrightarrow> \<not> isl (ext img sx sy sw sh))"

text \<open>
  The canvas of a browser, for concrete runs: \<open>getImageData\<close> raises an
  \<open>IndexSizeError\<close> when the width or the height asked for is zero; otherwise the
  pixels of a part are the rectangle asked for.
\<close>

definition browserCanvas :: "(nat \<times> nat \<times> nat \<times> nat) extractor" where
  "browserCanvas img sx sy sw sh =
     (if sw = 0 \<or> sh = 0 then Inl (External ''IndexSizeError'') else Inr (sx, sy, sw, sh))"

text \<open>A canvas for concrete runs that delivers every rectangle asked for.\<close>

definition rectOf :: "(nat \<times> nat \<times> nat \<times> nat) extractor" where
  "rectOf img sx sy sw sh = Inr (sx, sy, sw, sh)"

text \<open>The page that the loop body of \<open>generatePDF\<close> composes when nothing raises.\<close>

definition pageOf ::
  "('px \<Rightarrow> error + 'img) \<Rightarrow> font \<Rightarrow> options \<Rightarrow> nat \<Rightarrow> nat \<Rightarrow> 'px part \<Rightarrow> 'img page" where
  "pageOf embedPng fnt opts total_arg index p = projr (composePage embedPng fnt opts total_arg index p)"

text \<open>A font for concrete runs: every character is 0.6 of the size wide.\<close>

definition monoFont :: font where
  "monoFont txt sz = real (length txt) * sz * (6 / 10)"

text \<open>The text labels among the draw calls of a page.\<close>

fun isText :: "'img draw \<Rightarrow> bool" where
  "isText (DrawText txt x y sz c) = True"
| "isText d = False"

text \<open>
  A concrete application: a loaded image of 1000 by 700 pixels, the canvas
  \<open>rectOf\<close>, a PDF library that embeds every part, the font \<open>monoFont\<close>.
\<close>

definition exampleApp :: "string \<Rightarrow> nat \<Rightarrow> (nat \<times> nat \<times> nat \<times> nat) App" where
  "exampleApp pat d =
     \<lparr>imageProcessor = \<lparr>originalImage = Some \<lparr>width = 1000, height = 700\<rparr>, imageParts = []\<rparr>,
      currentFile = Some ''poster.png'',
      currentPattern = pat,
      currentDpi = d\<rparr>"

definition exampleParts :: "string \<Rightarrow> nat \<Rightarrow> (nat \<times> nat \<times> nat \<times> nat) part list" where
  "exampleParts pat d = projr (fst (divideImage rectOf pat d (imageProcessor (exampleApp pat d))))"

definition exampleExport :: "string \<Rightarrow> nat \<Rightarrow> error + (nat \<times> nat \<times> nat \<times> nat) page list" where
  "exampleExport pat d = fst (exportPDF rectOf Inr monoFont (exampleApp pat d))"

fun labelTexts :: "'img draw list \<Rightarrow> string list" where
  "labelTexts [] = []"
| "labelTexts (DrawText txt x y sz c # ds) = txt # labelTexts ds"
| "labelTexts (d # ds) = labelTexts ds"

section \<open>The iteration of \<open>divideImage\<close>\<close>

lemma col_loop_ok:
  "\<forall>c'. c \<le> c' \<and> c' < cols g \<longrightarrow> \<not> isl (ext img (c' * pw) (r * ph) pw ph) \<Longrightarrow>
   col_loop ext img g d pw ph r c parts =
     (None, parts @ map (tile ext img g d pw ph r) [c..<cols g])"
proof (induction ext img g d pw ph r c parts rule: col_loop.induct)
  case (1 ext img g d pw ph r c parts)
  show ?case
  proof (cases "c < cols g")
    case False
    then show ?thesis by simp
  next
    case True
    from "1.prems" True obtain px where px: "ext img (c * pw) (r * ph) pw ph = Inr px"
      by (cases "ext img (c * pw) (r * ph) pw ph") auto
    have rest: "\<forall>c'. Suc c \<le> c' \<and> c' < cols g \<longrightarrow> \<not> isl (ext img (c' * pw) (r * ph) pw ph)"
      using "1.prems" by auto
    have "col_loop ext img g d pw ph r (Suc c) (parts @ [partInfo px g d pw ph r c]) =
       (None, (parts @ [partInfo px g d pw ph r c]) @ map (tile ext img g d pw ph r) [Suc c..<cols g])"
      using "1.IH"[OF True refl refl px rest] .
    moreover have "[c..<cols g] = c # [Suc c..<cols g]"
      using True by (simp add: upt_conv_Cons)
    ultimately show ?thesis
      using True px by (simp add: tile_def)
  qed
qed


lemma row_loop_ok:
  "\<forall>r' c'. r \<le> r' \<and> r' < rows g \<and> c' < cols g \<longrightarrow> \<not> isl (ext img (c' * pw) (r' * ph) pw ph) \<Longrightarrow>
   row_loop ext img g d pw ph r parts =
     (None, parts @ concat (map (\<lambda>r'. map (tile ext img g d pw ph r') [0..<cols g]) [r..<rows g]))"
proof (induction ext img g d pw ph r parts rule: row_loop.induct)
  case (1 ext img g d pw ph r parts)
  show ?case
  proof (cases "r < rows g")
    case False
    then show ?thesis by simp
  next
    case True
    have "\<forall>c'. 0 \<le> c' \<and> c' < cols g \<longrightarrow> \<not> isl (ext img (c' * pw) (r * ph) pw ph)"
      using "1.prems" True by auto
    then have inner: "col_loop ext img g d pw ph r 0 parts =
        (None, parts @ map (tile ext img g d pw ph r) [0..<cols g])"
      by (rule col_loop_ok)
    have rest: "\<forall>r' c'. Suc r \<le> r' \<and> r' < rows g \<and> c' < cols g \<longrightarrow>
        \<not> isl (ext img (c' * pw) (r' * ph) pw ph)"
      using "1.prems" by auto
    have "row_loop ext img g d pw ph (Suc r) (parts @ map (tile ext img g d pw ph r) [0..<cols g]) =
        (None, (parts @ map (tile ext img g d pw ph r) [0..<cols g]) @
           concat (map (\<lambda>r'. map (tile ext img g d pw ph r') [0..<cols g]) [Suc r..<rows g]))"
      using "1.IH"[OF True inner[symmetric] refl rest] .
    moreover have "[r..<rows g] = r # [Suc r..<rows g]"
      using True by (simp add: upt_conv_Cons)
    ultimately show ?thesis
      using True inner by simp
  qed
qed

lemma length_grid_list:
  "length (concat (map (\<lambda>r. map (f r) [0..<m]) [0..<n])) = n * m"
  by (induction n) simp_all

lemma nth_grid_list:
  "r < n \<Longrightarrow> c < m \<Longrightarrow> concat (map (\<lambda>r. map (f r) [0..<m]) [0..<n]) ! (r * m + c) = f r c"
proof (induction n)
  case 0
  then show ?case by simp
next
  case (Suc n)
  show ?case
  proof (cases "r < n")
    case True
    have "r * m + c < n * m"
    proof -
      have "r * m + c < r * m + m" using Suc.prems by simp
      also have "\<dots> = Suc r * m" by simp
      also have "\<dots> \<le> n * m" using True by (intro mult_le_mono1) simp
      finally show ?thesis .
    qed
    then show ?thesis
      using Suc.IH[OF True Suc.prems(2)] by (simp add: nth_append length_grid_list)
  next
    case False
    then have "r = n" using Suc.prems by simp
    then show ?thesis
      using Suc.prems by (simp add: nth_append length_grid_list)
  qed
qed


lemma divideImage_ok:
  assumes "originalImage this = Some img" and "getGridDimensions pat = Own g"
    and "extractable ext img g"
  shows "divideImage ext pat d this =
    (Inr (gridParts ext img g d (width img div cols g) (height img div rows g)),
     this\<lparr>imageParts := gridParts ext img g d (width img div cols g) (height img div rows g)\<rparr>)"
proof -
  have "\<forall>r' c'. 0 \<le> r' \<and> r' < rows g \<and> c' < cols g \<longrightarrow>
      \<not> isl (ext img (c' * (width img div cols g)) (r' * (height img div rows g))
               (width img div cols g) (height img div rows g))"
    using assms(3) by (simp add: extractable_def)
  then have "row_loop ext img g d (width img div cols g) (height img div rows g) 0 [] =
      (None, [] @ gridParts ext img g d (width img div cols g) (height img div rows g))"
    unfolding gridParts_def by (rule row_loop_ok)
  then show ?thesis
    using assms(1,2) by (simp add: divideImage_def Let_def del: row_loop.simps)
qed

lemma length_gridParts: "length (gridParts ext img g d pw ph) = rows g * cols g"
  by (simp add: gridParts_def length_grid_list)

lemma nth_gridParts:
  "r < rows g \<Longrightarrow> c < cols g \<Longrightarrow> gridParts ext img g d pw ph ! (r * cols g + c) = tile ext img g d pw ph r c"
  by (simp add: gridParts_def nth_grid_list)

lemma nth_gridParts_div:
  assumes "i < rows g * cols g"
  shows "gridParts ext img g d pw ph ! i = tile ext img g d pw ph (i div cols g) (i mod cols g)"
proof -
  have pos: "0 < cols g"
  proof (rule ccontr)
    assume "\<not> 0 < cols g"
    then have "cols g = 0" by simp
    with assms show False by simp
  qed
  have "i div cols g < rows g"
    using assms pos by (simp add: less_mult_imp_div_less)
  moreover have "i mod cols g < cols g" using pos by simp
  ultimately have "gridParts ext img g d pw ph ! (i div cols g * cols g + i mod cols g) =
      tile ext img g d pw ph (i div cols g) (i mod cols g)"
    by (rule nth_gridParts)
  then show ?thesis by simp
qed

lemma set_gridParts:
  "p \<in> set (gridParts ext img g d pw ph) \<Longrightarrow> \<exists>r<rows g. \<exists>c<cols g. p = tile ext img g d pw ph r c"
  by (fastforce simp: gridParts_def)

lemma partNumbers_gridParts:
  "map partNumber (gridParts ext img g d pw ph) = [1..<Suc (rows g * cols g)]"
proof (rule nth_equalityI)
  show "length (map partNumber (gridParts ext img g d pw ph)) = length [1..<Suc (rows g * cols g)]"
    by (simp add: length_gridParts del: upt_Suc)
next
  fix i assume "i < length (map partNumber (gridParts ext img g d pw ph))"
  then have i: "i < rows g * cols g" by (simp add: length_gridParts)
  then have "partNumber (gridParts ext img g d pw ph ! i) = i div cols g * cols g + i mod cols g + 1"
    by (simp add: nth_gridParts_div tile_def partInfo_def)
  then show "map partNumber (gridParts ext img g d pw ph) ! i = [1..<Suc (rows g * cols g)] ! i"
    using i by (simp add: length_gridParts del: upt_Suc)
qed

section \<open>Claims about the partition\<close>

lemma extractable_delivers:
  assumes "delivers ext img" and "cols g \<le> width img" and "rows g \<le> height img"
  shows "extractable ext img g"
  unfolding extractable_def
proof (intro allI impI)
  fix r c assume r: "r < rows g" and c: "c < cols g"
  let ?pw = "width img div cols g" and ?ph = "height img div rows g"
  have pw: "0 < ?pw" using c assms(2) by (simp add: div_greater_zero_iff)
  have ph: "0 < ?ph" using r assms(3) by (simp add: div_greater_zero_iff)
  have "c * ?pw + ?pw = Suc c * ?pw" by simp
  also have "\<dots> \<le> cols g * ?pw" using c by (intro mult_le_mono1) simp
  also have "\<dots> \<le> width img" by simp
  finally have x: "c * ?pw + ?pw \<le> width img" .
  have "r * ?ph + ?ph = Suc r * ?ph" by simp
  also have "\<dots> \<le> rows g * ?ph" using r by (intro mult_le_mono1) simp
  also have "\<dots> \<le> height img" by simp
  finally have y: "r * ?ph + ?ph \<le> height img" .
  from assms(1) pw ph x y show "\<not> isl (ext img (c * ?pw) (r * ?ph) ?pw ?ph)"
    unfolding delivers_def by blast
qed

text \<open>
  C1, amended. For a loaded image, a pattern that \<open>getGridDimensions\<close> maps to a grid
  entry with \<open>rows g\<close> rows and \<open>cols g\<close> columns, an image at least \<open>cols g\<close> pixels
  wide and \<open>rows g\<close> pixels high (so that no tile is empty), and a canvas that delivers
  every non-empty rectangle inside the image, \<open>divideImage\<close> returns exactly
  \<open>rows g * cols g\<close> parts in row-major order: the part at index \<open>r * cols g + c\<close> has
  position \<open>(r, c)\<close> and part number \<open>r * cols g + c + 1\<close>, the part numbers are
  \<open>1, \<dots>, rows g * cols g\<close> in the order of the list, and every part has
  \<open>totalParts = rows g * cols g\<close>.
\<close>

theorem divideImage_row_major:
  assumes "originalImage this = Some img" and "getGridDimensions pat = Own g"
    and "cols g \<le> width img" and "rows g \<le> height img"
    and "delivers ext img"
  shows "\<exists>parts. fst (divideImage ext pat d this) = Inr parts
      \<and> length parts = rows g * cols g
      \<and> map partNumber parts = [1..<Suc (rows g * cols g)]
      \<and> (\<forall>r<rows g. \<forall>c<cols g.
            position (parts ! (r * cols g + c)) = \<lparr>row = r, col = c\<rparr>
          \<and> partNumber (parts ! (r * cols g + c)) = r * cols g + c + 1)
      \<and> (\<forall>p\<in>set parts. totalParts p = rows g * cols g)"
proof -
  let ?ps = "gridParts ext img g d (width img div cols g) (height img div rows g)"
  have "extractable ext img g"
    using assms(5,3,4) by (rule extractable_delivers)
  with assms(1,2) have "fst (divideImage ext pat d this) = Inr ?ps"
    by (simp add: divideImage_ok)
  moreover have "length ?ps = rows g * cols g"
    by (rule length_gridParts)
  moreover have "map partNumber ?ps = [1..<Suc (rows g * cols g)]"
    by (rule partNumbers_gridParts)
  moreover have "\<forall>r<rows g. \<forall>c<cols g.
            position (?ps ! (r * cols g + c)) = \<lparr>row = r, col = c\<rparr>
          \<and> partNumber (?ps ! (r * cols g + c)) = r * cols g + c + 1"
    by (simp add: nth_gridParts tile_def partInfo_def)
  moreover have "\<forall>p\<in>set ?ps. totalParts p = rows g * cols g"
    by (auto dest!: set_gridParts simp: tile_def partInfo_def)
  ultimately show ?thesis by blast
qed

lemma getGridDimensions_A4_2x2:
  "getGridDimensions ''A4_2x2'' = Own \<lparr>rows = 2, cols = 2, paperSize = ''A4''\<rparr>"
  by (simp add: getGridDimensions_def js_get_def patterns_def)

lemma extractable_rectOf: "extractable rectOf img g"
  by (simp add: extractable_def rectOf_def)

lemma delivers_browserCanvas: "delivers browserCanvas img"
  by (simp add: delivers_def browserCanvas_def)

text \<open>
  C1 as stated fails: for a loaded image of one pixel the pattern \<open>A4_2x2\<close> asks the
  canvas for tiles of width \<open>\<lfloor>1 / 2\<rfloor> = 0\<close>, the canvas raises, and \<open>divideImage\<close>
  returns no list of parts.
\<close>

theorem divideImage_row_major_counterexample:
  "getGridDimensions ''A4_2x2'' = Own \<lparr>rows = 2, cols = 2, paperSize = ''A4''\<rparr>
   \<and> fst (divideImage browserCanvas ''A4_2x2'' 300
        \<lparr>originalImage = Some \<lparr>width = 1, height = 1\<rparr>, imageParts = []\<rparr>)
       = Inl (External ''IndexSizeError'')"
  by (simp add: divideImage_def getGridDimensions_A4_2x2 browserCanvas_def)

text \<open>An image of 1000 by 700 pixels under \<open>A4_2x2\<close> on the canvas of a browser.\<close>

theorem divideImage_row_major_witness:
  "\<exists>parts. fst (divideImage browserCanvas ''A4_2x2'' 300
       \<lparr>originalImage = Some \<lparr>width = 1000, height = 700\<rparr>, imageParts = []\<rparr>) = Inr parts
      \<and> length parts = 4
      \<and> map partNumber parts = [1, 2, 3, 4]
      \<and> position (parts ! 2) = \<lparr>row = 1, col = 0\<rparr>
      \<and> (\<forall>p\<in>set parts. totalParts p = 4)"
proof -
  have loaded: "originalImage \<lparr>originalImage = Some \<lparr>width = 1000, height = 700\<rparr>,
      imageParts = ([] :: (nat \<times> nat \<times> nat \<times> nat) part list)\<rparr> = Some \<lparr>width = 1000, height = 700\<rparr>"
    by simp
  have wide: "cols \<lparr>rows = 2, cols = 2, paperSize = ''A4''\<rparr> \<le> width \<lparr>width = 1000, height = 700\<rparr>"
    and high: "rows \<lparr>rows = 2, cols = 2, paperSize = ''A4''\<rparr> \<le> height \<lparr>width = 1000, height = 700\<rparr>"
    by simp_all
  from divideImage_row_major[OF loaded getGridDimensions_A4_2x2 wide high delivers_browserCanvas,
      of 300]
  obtain parts where p: "fst (divideImage browserCanvas ''A4_2x2'' 300
       \<lparr>originalImage = Some \<lparr>width = 1000, height = 700\<rparr>, imageParts = []\<rparr>) = Inr parts"
    "length parts = 4" "map partNumber parts = [1, 2, 3, 4]"
    "\<forall>r<2. \<forall>c<2. position (parts ! (r * 2 + c)) = \<lparr>row = r, col = c\<rparr>"
    "\<forall>p\<in>set parts. totalParts p = 4"
    by (auto simp: upt_rec)
  from p(4)[rule_format, of 1 0] have "position (parts ! 2) = \<lparr>row = 1, col = 0\<rparr>" by simp
  with p show ?thesis by simp
qed

text \<open>
  C2. Every part has width \<open>\<lfloor>W / cols\<rfloor>\<close> and height \<open>\<lfloor>H / rows\<rfloor>\<close> of the source's
  width \<open>W\<close> and height \<open>H\<close>: all parts have the same size and the remainder is
  dropped. A source of 1000 by 700 pixels under \<open>A4_2x2\<close> gives four parts of 500
  by 350 (the witness).
\<close>

theorem divideImage_tile_size:
  assumes "originalImage this = Some img" and "getGridDimensions pat = Own g"
    and "extractable ext img g"
  shows "\<exists>parts. fst (divideImage ext pat d this) = Inr parts
      \<and> (\<forall>p\<in>set parts.
            int (width (dimensions p)) = \<lfloor>real (width img) / real (cols g)\<rfloor>
          \<and> int (height (dimensions p)) = \<lfloor>real (height img) / real (rows g)\<rfloor>)"
proof -
  let ?ps = "gridParts ext img g d (width img div cols g) (height img div rows g)"
  have "fst (divideImage ext pat d this) = Inr ?ps"
    using divideImage_ok[OF assms] by simp
  moreover have "\<forall>p\<in>set ?ps.
            int (width (dimensions p)) = \<lfloor>real (width img) / real (cols g)\<rfloor>
          \<and> int (height (dimensions p)) = \<lfloor>real (height img) / real (rows g)\<rfloor>"
    by (auto dest!: set_gridParts simp: tile_def partInfo_def floor_divide_of_nat_eq)
  ultimately show ?thesis by blast
qed

theorem divideImage_tile_size_witness:
  "\<exists>parts. fst (divideImage rectOf ''A4_2x2'' 300
       \<lparr>originalImage = Some \<lparr>width = 1000, height = 700\<rparr>, imageParts = []\<rparr>) = Inr parts
      \<and> length parts = 4
      \<and> (\<forall>p\<in>set parts. width (dimensions p) = 500 \<and> height (dimensions p) = 350)"
proof -
  have loaded: "originalImage \<lparr>originalImage = Some \<lparr>width = 1000, height = 700\<rparr>,
      imageParts = ([] :: (nat \<times> nat \<times> nat \<times> nat) part list)\<rparr> = Some \<lparr>width = 1000, height = 700\<rparr>"
    by simp
  from divideImage_tile_size[OF loaded getGridDimensions_A4_2x2 extractable_rectOf, of 300]
  obtain parts where p: "fst (divideImage rectOf ''A4_2x2'' 300
       \<lparr>originalImage = Some \<lparr>width = 1000, height = 700\<rparr>, imageParts = []\<rparr>) = Inr parts"
    "\<forall>p\<in>set parts. int (width (dimensions p)) = 500 \<and> int (height (dimensions p)) = 350"
    by auto
  have "length (gridParts rectOf \<lparr>width = 1000, height = 700\<rparr>
      \<lparr>rows = 2, cols = 2, paperSize = ''A4''\<rparr> 300 500 350) = 4"
    by (simp add: length_gridParts)
  then have "length parts = 4"
    using p(1) divideImage_ok[OF loaded getGridDimensions_A4_2x2 extractable_rectOf, of 300]
    by auto
  moreover have "\<forall>p\<in>set parts. width (dimensions p) = 500 \<and> height (dimensions p) = 350"
    using p(2) by auto
  ultimately show ?thesis using p(1) by blast
qed

lemma strip_disjoint:
  fixes w :: nat
  assumes "c \<noteq> c'"
  shows "{c * w..<c * w + w} \<inter> {c' * w..<c' * w + w} = {}"
proof -
  have step: "a * w + w \<le> b * w" if "a < b" for a b :: nat
  proof -
    have "a * w + w = Suc a * w" by simp
    also have "\<dots> \<le> b * w" using that by (intro mult_le_mono1) simp
    finally show ?thesis .
  qed
  from assms consider "c < c'" | "c' < c" by linarith
  then show ?thesis
  proof cases
    case 1
    from step[OF 1] show ?thesis by auto
  next
    case 2
    from step[OF 2] show ?thesis by auto
  qed
qed

lemma strip_cover:
  fixes w :: nat
  shows "(\<Union>c<n. {c * w..<c * w + w}) = {0..<n * w}"
proof (induction n)
  case 0
  then show ?case by simp
next
  case (Suc n)
  have "(\<Union>c<Suc n. {c * w..<c * w + w}) = {0..<n * w} \<union> {n * w..<n * w + w}"
    using Suc.IH by (simp add: lessThan_Suc Un_commute)
  also have "\<dots> = {0..<Suc n * w}"
    by (auto simp: add.commute)
  finally show ?case .
qed

lemma region_disjoint:
  assumes "(r, c) \<noteq> (r', c')"
  shows "region (c * pw) (r * ph) pw ph \<inter> region (c' * pw) (r' * ph) pw ph = {}"
proof (cases "c = c'")
  case True
  with assms have "r \<noteq> r'" by simp
  from strip_disjoint[OF this, of ph] show ?thesis
    unfolding region_def by blast
next
  case False
  from strip_disjoint[OF this, of pw] show ?thesis
    unfolding region_def by blast
qed

lemma region_cover:
  "(\<Union>r<n. \<Union>c<m. region (c * pw) (r * ph) pw ph) = region 0 0 (m * pw) (n * ph)"
proof -
  have "(\<Union>r<n. \<Union>c<m. region (c * pw) (r * ph) pw ph) =
      (\<Union>c<m. {c * pw..<c * pw + pw}) \<times> (\<Union>r<n. {r * ph..<r * ph + ph})"
    unfolding region_def by blast
  then show ?thesis
    by (simp add: strip_cover region_def)
qed

text \<open>
  C10. The part at \<open>(r, c)\<close> holds the pixels that the canvas returned for the source
  rectangle with corner \<open>(c * \<lfloor>W / cols\<rfloor>, r * \<lfloor>H / rows\<rfloor>)\<close> and size
  \<open>\<lfloor>W / cols\<rfloor> \<times> \<lfloor>H / rows\<rfloor>\<close>. The rectangles of two different grid positions are
  disjoint, together they are exactly the rectangle
  \<open>[0, cols * \<lfloor>W / cols\<rfloor>) \<times> [0, rows * \<lfloor>H / rows\<rfloor>)\<close> at the origin, and that
  rectangle lies inside the image.
\<close>

theorem divideImage_source_regions:
  assumes "originalImage this = Some img" and "getGridDimensions pat = Own g"
    and "extractable ext img g"
    and "pw = width img div cols g" and "ph = height img div rows g"
  shows "\<exists>parts. fst (divideImage ext pat d this) = Inr parts
      \<and> (\<forall>r<rows g. \<forall>c<cols g.
            ext img (c * pw) (r * ph) pw ph = Inr (pixels (parts ! (r * cols g + c)))
          \<and> dimensions (parts ! (r * cols g + c)) = \<lparr>width = pw, height = ph\<rparr>)
      \<and> (\<forall>r<rows g. \<forall>c<cols g. \<forall>r'<rows g. \<forall>c'<cols g. (r, c) \<noteq> (r', c') \<longrightarrow>
            region (c * pw) (r * ph) pw ph \<inter> region (c' * pw) (r' * ph) pw ph = {})
      \<and> (\<Union>r<rows g. \<Union>c<cols g. region (c * pw) (r * ph) pw ph)
            = region 0 0 (cols g * pw) (rows g * ph)
      \<and> region 0 0 (cols g * pw) (rows g * ph) \<subseteq> region 0 0 (width img) (height img)"
proof -
  let ?ps = "gridParts ext img g d pw ph"
  have "fst (divideImage ext pat d this) = Inr ?ps"
    using divideImage_ok[OF assms(1-3)] assms(4,5) by simp
  moreover have "\<forall>r<rows g. \<forall>c<cols g.
            ext img (c * pw) (r * ph) pw ph = Inr (pixels (?ps ! (r * cols g + c)))
          \<and> dimensions (?ps ! (r * cols g + c)) = \<lparr>width = pw, height = ph\<rparr>"
  proof (intro allI impI)
    fix r c assume rc: "r < rows g" "c < cols g"
    then have "\<not> isl (ext img (c * pw) (r * ph) pw ph)"
      using assms(3-5) by (simp add: extractable_def)
    then have "ext img (c * pw) (r * ph) pw ph = Inr (projr (ext img (c * pw) (r * ph) pw ph))"
      by (cases "ext img (c * pw) (r * ph) pw ph") simp_all
    then show "ext img (c * pw) (r * ph) pw ph = Inr (pixels (?ps ! (r * cols g + c)))
          \<and> dimensions (?ps ! (r * cols g + c)) = \<lparr>width = pw, height = ph\<rparr>"
      using rc by (simp add: nth_gridParts tile_def partInfo_def)
  qed
  moreover have "\<forall>r<rows g. \<forall>c<cols g. \<forall>r'<rows g. \<forall>c'<cols g. (r, c) \<noteq> (r', c') \<longrightarrow>
            region (c * pw) (r * ph) pw ph \<inter> region (c' * pw) (r' * ph) pw ph = {}"
    using region_disjoint by blast
  moreover have "(\<Union>r<rows g. \<Union>c<cols g. region (c * pw) (r * ph) pw ph)
            = region 0 0 (cols g * pw) (rows g * ph)"
    by (rule region_cover)
  moreover have "region 0 0 (cols g * pw) (rows g * ph) \<subseteq> region 0 0 (width img) (height img)"
  proof -
    have "cols g * pw \<le> width img" "rows g * ph \<le> height img"
      using assms(4,5) by simp_all
    then show ?thesis unfolding region_def by auto
  qed
  ultimately show ?thesis by blast
qed

theorem divideImage_source_regions_witness:
  "\<exists>parts. fst (divideImage rectOf ''A4_2x2'' 300
       \<lparr>originalImage = Some \<lparr>width = 1000, height = 700\<rparr>, imageParts = []\<rparr>) = Inr parts
      \<and> pixels (parts ! 3) = (500, 350, 500, 350)
      \<and> region 0 0 500 350 \<inter> region 500 350 500 350 = {}
      \<and> (\<Union>r<2. \<Union>c<2. region (c * 500) (r * 350) 500 350) = region 0 0 1000 700"
proof -
  have loaded: "originalImage \<lparr>originalImage = Some \<lparr>width = 1000, height = 700\<rparr>,
      imageParts = ([] :: (nat \<times> nat \<times> nat \<times> nat) part list)\<rparr> = Some \<lparr>width = 1000, height = 700\<rparr>"
    by simp
  from divideImage_source_regions[OF loaded getGridDimensions_A4_2x2 extractable_rectOf refl refl, of 300]
  obtain parts where p: "fst (divideImage rectOf ''A4_2x2'' 300
       \<lparr>originalImage = Some \<lparr>width = 1000, height = 700\<rparr>, imageParts = []\<rparr>) = Inr parts"
    "\<forall>r<2. \<forall>c<2. rectOf \<lparr>width = 1000, height = 700\<rparr> (c * 500) (r * 350) 500 350
        = Inr (pixels (parts ! (r * 2 + c)))"
    "\<forall>r<2. \<forall>c<2. \<forall>r'<2. \<forall>c'<2. (r, c) \<noteq> (r', c') \<longrightarrow>
            region (c * 500) (r * 350) 500 350 \<inter> region (c' * 500) (r' * 350) 500 350 = {}"
    "(\<Union>r<2. \<Union>c<2. region (c * 500) (r * 350) 500 350) = region 0 0 1000 700"
    by auto
  from p(2)[rule_format, of 1 1] have "pixels (parts ! 3) = (500, 350, 500, 350)"
    by (simp add: rectOf_def)
  moreover from p(3)[rule_format, of 0 0 1 1]
  have "region 0 0 500 350 \<inter> region 500 350 500 350 = {}" by simp
  ultimately show ?thesis using p(1,4) by blast
qed

section \<open>The loop of \<open>generatePDF\<close>\<close>

lemma composePage_ok:
  assumes "js_get PAPER_SIZES (opt_paperSize opts) = Own sheet" and "\<not> isl (embedPng (pixels p))"
  shows "composePage embedPng fnt opts n i p = Inr (pageOf embedPng fnt opts n i p)"
  using assms unfolding pageOf_def
  by (cases "embedPng (pixels p)") (simp_all add: composePage_def Let_def)

lemma page_loop_ok:
  assumes "js_get PAPER_SIZES (opt_paperSize opts) = Own sheet"
    and "\<forall>p\<in>set parts. \<not> isl (embedPng (pixels p))"
  shows "page_loop embedPng fnt opts n i parts doc =
     Inr (doc @ map (\<lambda>(j, p). pageOf embedPng fnt opts n j p) (enumerate i parts))"
  using assms(2)
proof (induction parts arbitrary: i doc)
  case Nil
  then show ?case by simp
next
  case (Cons p parts)
  from Cons.prems have "\<not> isl (embedPng (pixels p))" by simp
  with assms(1)
  have "composePage embedPng fnt opts n i p = Inr (pageOf embedPng fnt opts n i p)"
    by (rule composePage_ok)
  moreover from Cons.prems have "\<forall>p\<in>set parts. \<not> isl (embedPng (pixels p))" by simp
  ultimately show ?case
    using Cons.IH[of "i + 1" "doc @ [pageOf embedPng fnt opts n i p]"] by simp
qed

lemma generatePDF_ok:
  assumes "js_get PAPER_SIZES (opt_paperSize opts) = Own sheet"
    and "\<forall>p\<in>set parts. \<not> isl (embedPng (pixels p))"
    and "parts \<noteq> []"
  shows "generatePDF embedPng fnt parts opts =
     Inr (map (\<lambda>(j, p). pageOf embedPng fnt opts (length parts) j p) (enumerate 0 parts))"
proof -
  from assms(3) have "enumerate 0 parts \<noteq> []"
    by (cases parts) simp_all
  then show ?thesis
    using page_loop_ok[OF assms(1,2), of fnt "length parts" 0 "[]"]
    by (simp add: generatePDF_def save_def)
qed

lemma generatePDF_empty:
  "generatePDF embedPng fnt [] opts = Inr [defaultPage]"
  by (simp add: generatePDF_def save_def)

lemma pageOf_size:
  assumes "js_get PAPER_SIZES (opt_paperSize opts) = Own sheet" and "\<not> isl (embedPng (pixels p))"
  shows "pageWidth (pageOf embedPng fnt opts n i p) =
           real (if isLandscape (pattern opts) then heightPx sheet else widthPx sheet)"
    and "pageHeight (pageOf embedPng fnt opts n i p) =
           real (if isLandscape (pattern opts) then widthPx sheet else heightPx sheet)"
  using assms unfolding pageOf_def
  by (cases "embedPng (pixels p)";
      simp add: composePage_def Let_def addImageToPage_def addCuttingGuides_def
        addPageNumber_def addPartInfo_def drawOn_def split: prod.splits)+

lemma pageOf_texts:
  assumes "js_get PAPER_SIZES (opt_paperSize opts) = Own sheet" and "\<not> isl (embedPng (pixels p))"
  shows "filter isText (content (pageOf embedPng fnt opts n i p)) =
     (if addPageNumbers opts
      then [DrawText (pageNumberText (i + 1) n)
              (pageWidth (pageOf embedPng fnt opts n i p) - fnt (pageNumberText (i + 1) n) 10 - 30)
              20 10 (rgb (5 / 10) (5 / 10) (5 / 10))]
      else [])
     @ [DrawText (partInfoText p) 30 (pageHeight (pageOf embedPng fnt opts n i p) - 20) 10
          (rgb (5 / 10) (5 / 10) (5 / 10))]"
  using assms unfolding pageOf_def
  by (cases "embedPng (pixels p)")
     (simp_all add: composePage_def Let_def addImageToPage_def addCuttingGuides_def
        addPageNumber_def addPartInfo_def drawOn_def split: prod.splits)

lemma nth_enumerate_map:
  "i < length xs \<Longrightarrow> map (\<lambda>(j, p). f j p) (enumerate 0 xs) ! i = f i (xs ! i)"
  by (simp add: nth_enumerate_eq)

section \<open>Rounding to a double\<close>

lemma binade_le:
  assumes "2 powi (- 1022) \<le> \<bar>x\<bar>"
  shows "2 powi (binade k x) \<le> \<bar>x\<bar>"
  using assms by (induction k) simp_all

lemma binade_eq:
  assumes "- 1022 \<le> e" and "e \<le> int k - 1022"
    and "2 powi e \<le> \<bar>x\<bar>" and "\<bar>x\<bar> < 2 powi (e + 1)"
  shows "binade k x = e"
  using assms
proof (induction k)
  case 0
  then show ?case by simp
next
  case (Suc k)
  show ?case
  proof (cases "e = int k - 1021")
    case True
    with Suc.prems show ?thesis by simp
  next
    case False
    with Suc.prems have e: "e \<le> int k - 1022" by simp
    then have "e + 1 \<le> int k - 1021" by simp
    then have "(2::real) powi (e + 1) \<le> 2 powi (int k - 1021)"
      by (intro power_int_increasing) simp_all
    with Suc.prems have "\<not> 2 powi (int k - 1021) \<le> \<bar>x\<bar>" by simp
    with Suc.IH[OF Suc.prems(1) e Suc.prems(3,4)] show ?thesis by simp
  qed
qed

lemma exponent_eq:
  assumes "- 1022 \<le> e" and "e \<le> 1023"
    and "2 powi e \<le> \<bar>x\<bar>" and "\<bar>x\<bar> < 2 powi (e + 1)"
  shows "exponent x = e"
  unfolding exponent_def using assms by (intro binade_eq) simp_all

lemma roundHalfEven_error: "\<bar>of_int (roundHalfEven y) - y\<bar> \<le> 1 / 2"
proof -
  have "of_int \<lfloor>y\<rfloor> \<le> y" "y < of_int \<lfloor>y\<rfloor> + 1" by linarith+
  then show ?thesis
    by (auto simp: roundHalfEven_def Let_def)
qed

text \<open>
  The relative error of one rounding in the normal range is at most \<open>2 powi (- 53)\<close>.
\<close>

lemma double_error:
  assumes "2 powi (- 1022) \<le> \<bar>x\<bar>"
  shows "\<bar>double x - x\<bar> \<le> 2 powi (- 53) * \<bar>x\<bar>"
proof -
  let ?q = "ulp x"
  have q: "0 < ?q" by (simp add: ulp_def)
  have "double x - x = (of_int (roundHalfEven (x / ?q)) - x / ?q) * ?q"
    using q by (simp add: double_def algebra_simps)
  then have "\<bar>double x - x\<bar> = \<bar>of_int (roundHalfEven (x / ?q)) - x / ?q\<bar> * ?q"
    using q by (simp add: abs_mult)
  also have "\<dots> \<le> 1 / 2 * ?q"
    using q roundHalfEven_error[of "x / ?q"] by (intro mult_right_mono) simp_all
  also have "\<dots> = 2 powi (- 53) * 2 powi (exponent x)"
    by (simp add: ulp_def power_int_diff power_int_minus field_simps)
  also have "\<dots> \<le> 2 powi (- 53) * \<bar>x\<bar>"
    using binade_le[OF assms, of 2045] by (intro mult_left_mono) (simp_all add: exponent_def)
  finally show ?thesis .
qed

text \<open>The value of \<open>double\<close> at a number whose binary exponent is known.\<close>

lemma double_eval:
  assumes "- 1022 \<le> e" and "e \<le> 1023"
    and "2 powi e \<le> \<bar>x\<bar>" and "\<bar>x\<bar> < 2 powi (e + 1)"
  shows "double x = of_int (roundHalfEven (x / 2 powi (e - 52))) * 2 powi (e - 52)"
  using exponent_eq[OF assms] by (simp add: double_def ulp_def)



lemma double_bounds:
  assumes "2 powi (- 1022) \<le> x"
  shows "x * (1 - 2 powi (- 53)) \<le> double x" and "double x \<le> x * (1 + 2 powi (- 53))"
proof -
  have "0 < (2::real) powi (- 1022)" by simp
  with assms have x: "0 < x" by linarith
  then have n: "2 powi (- 1022) \<le> \<bar>x\<bar>" using assms by simp
  define u :: real where "u = 2 powi (- 53)"
  from double_error[OF n] x have "\<bar>double x - x\<bar> \<le> u * x" by (simp add: u_def)
  then have "x - u * x \<le> double x" and "double x \<le> x + u * x"
    by linarith+
  then show "x * (1 - 2 powi (- 53)) \<le> double x" and "double x \<le> x * (1 + 2 powi (- 53))"
    unfolding u_def by (simp_all only: algebra_simps)
qed

section \<open>Claims about the placement of the image\<close>

lemma quotient_normal:
  fixes m w :: real
  assumes "2 powi (- 960) \<le> m" and "1 \<le> w" and "w \<le> 2 ^ 53"
  shows "2 powi (- 1013) \<le> m / w"
proof -
  have "(2::real) powi (- 1013) * w \<le> 2 powi (- 1013) * 2 ^ 53"
    using assms(3) by (intro mult_left_mono) simp_all
  also have "\<dots> = 2 powi (- 1013) * 2 powi 53" by simp
  also have "\<dots> = 2 powi (- 960)" by (simp flip: power_int_add)
  also have "\<dots> \<le> m" by (rule assms(1))
  finally show ?thesis using assms(2) by (simp add: pos_le_divide_eq)
qed

lemma scaled_extent:
  fixes m n w h :: real
  assumes m: "2 powi (- 960) \<le> m" and n: "2 powi (- 960) \<le> n"
    and w: "1 \<le> w" "w \<le> 2 ^ 53" and h: "1 \<le> h" "h \<le> 2 ^ 53"
    and s: "s = min (double (m / w)) (double (n / h))"
  shows "double (w * s) \<le> m * (1 + 2 powi (- 53))\<^sup>2"
    and "double (h * s) \<le> n * (1 + 2 powi (- 53))\<^sup>2"
    and "\<bar>double (w * s) / double (h * s) - w / h\<bar> \<le> 2 powi (- 51) * (w / h)"
proof -
  define u :: real where "u = 2 powi (- 53)"
  have u: "0 < u" "u \<le> 1 / 2" by (simp_all add: u_def power_int_minus)
  have low: "(2::real) powi (- 1022) \<le> 2 powi (- 1013)" "(2::real) powi (- 1022) \<le> 2 powi (- 1014)"
    by (intro power_int_increasing; simp)+
  have qm: "2 powi (- 1013) \<le> m / w" using m w by (rule quotient_normal)
  have qn: "2 powi (- 1013) \<le> n / h" using n h by (rule quotient_normal)
  have am: "m / w * (1 - u) \<le> double (m / w)" "double (m / w) \<le> m / w * (1 + u)"
    unfolding u_def using low(1) qm by (intro double_bounds; linarith)+
  have an: "n / h * (1 - u) \<le> double (n / h)" "double (n / h) \<le> n / h * (1 + u)"
    unfolding u_def using low(1) qn by (intro double_bounds; linarith)+
  have half: "(2::real) powi (- 1013) * (1 - u) \<ge> 2 powi (- 1014)"
  proof -
    have "(2::real) powi (- 1014) = 2 powi (- 1013) * (1 / 2)"
      by (simp add: power_int_minus)
    also have "\<dots> \<le> 2 powi (- 1013) * (1 - u)"
      using u by (intro mult_left_mono) simp_all
    finally show ?thesis .
  qed
  have "2 powi (- 1013) * (1 - u) \<le> m / w * (1 - u)"
    using qm u by (intro mult_right_mono) simp_all
  with half am(1) have la: "2 powi (- 1014) \<le> double (m / w)" by linarith
  have "2 powi (- 1013) * (1 - u) \<le> n / h * (1 - u)"
    using qn u by (intro mult_right_mono) simp_all
  with half an(1) have lb: "2 powi (- 1014) \<le> double (n / h)" by linarith
  from la lb have ls: "2 powi (- 1014) \<le> s" by (simp add: s)
  have spos: "0 < s"
  proof -
    have "0 < (2::real) powi (- 1014)" by simp
    with ls show ?thesis by linarith
  qed
  have "s \<le> w * s" using w(1) spos by simp
  with ls low(2) have nw: "2 powi (- 1022) \<le> w * s" by linarith
  have "s \<le> h * s" using h(1) spos by simp
  with ls low(2) have nh: "2 powi (- 1022) \<le> h * s" by linarith
  have fw: "w * s * (1 - u) \<le> double (w * s)" "double (w * s) \<le> w * s * (1 + u)"
    unfolding u_def using nw by (intro double_bounds; assumption)+
  have fh: "h * s * (1 - u) \<le> double (h * s)" "double (h * s) \<le> h * s * (1 + u)"
    unfolding u_def using nh by (intro double_bounds; assumption)+
  have wpos: "0 < w" and hpos: "0 < h" using w(1) h(1) by linarith+
  have "s \<le> double (m / w)" by (simp add: s)
  then have "w * s \<le> w * (m / w * (1 + u))"
    using am(2) wpos by (intro mult_left_mono) linarith+
  also have "\<dots> = m * (1 + u)" using wpos by simp
  finally have "w * s * (1 + u) \<le> m * (1 + u) * (1 + u)"
    using u by (intro mult_right_mono) simp_all
  with fw(2) show "double (w * s) \<le> m * (1 + 2 powi (- 53))\<^sup>2"
    by (simp add: u_def power2_eq_square algebra_simps)
  have "s \<le> double (n / h)" by (simp add: s)
  then have "h * s \<le> h * (n / h * (1 + u))"
    using an(2) hpos by (intro mult_left_mono) linarith+
  also have "\<dots> = n * (1 + u)" using hpos by simp
  finally have "h * s * (1 + u) \<le> n * (1 + u) * (1 + u)"
    using u by (intro mult_right_mono) simp_all
  with fh(2) show "double (h * s) \<le> n * (1 + 2 powi (- 53))\<^sup>2"
    by (simp add: u_def power2_eq_square algebra_simps)
  let ?fw = "double (w * s)" and ?fh = "double (h * s)"
  have hs: "0 < h * s" using hpos spos by simp
  have "h * s * (1 / 2) \<le> h * s * (1 - u)"
    using hs u by (intro mult_left_mono) simp_all
  with fh(1) have fhl: "h * s / 2 \<le> ?fh" by simp
  with hs have fhpos: "0 < ?fh" by linarith
  have dw: "\<bar>?fw - w * s\<bar> \<le> u * (w * s)"
    using fw by (simp add: abs_le_iff algebra_simps)
  have dh: "\<bar>?fh - h * s\<bar> \<le> u * (h * s)"
    using fh by (simp add: abs_le_iff algebra_simps)
  have "?fw * h - ?fh * w = (?fw - w * s) * h - (?fh - h * s) * w"
    by (simp add: algebra_simps)
  then have "\<bar>?fw * h - ?fh * w\<bar> \<le> \<bar>?fw - w * s\<bar> * h + \<bar>?fh - h * s\<bar> * w"
    using wpos hpos by (simp add: abs_mult) (metis abs_mult abs_of_pos abs_triangle_ineq4 hpos wpos)
  also have "\<dots> \<le> u * (w * s) * h + u * (h * s) * w"
    using dw dh wpos hpos by (intro add_mono mult_right_mono) simp_all
  also have "\<dots> = 2 * u * w * (h * s)" by simp
  finally have num: "\<bar>?fw * h - ?fh * w\<bar> \<le> 2 * u * w * (h * s)" .
  have "?fw / ?fh - w / h = (?fw * h - ?fh * w) / (?fh * h)"
    using fhpos hpos by (simp add: field_simps)
  then have "\<bar>?fw / ?fh - w / h\<bar> = \<bar>?fw * h - ?fh * w\<bar> / (?fh * h)"
    using fhpos hpos by (simp add: abs_mult)
  also have "\<dots> \<le> (2 * u * w * (h * s)) / (?fh * h)"
    using num fhpos hpos by (intro divide_right_mono) simp_all
  also have "\<dots> \<le> (2 * u * w * (h * s)) / (h * s / 2 * h)"
    using fhl hs hpos wpos u by (intro divide_left_mono mult_right_mono mult_pos_pos) simp_all
  also have "\<dots> = 4 * u * (w / h)"
    using spos hpos by (simp add: field_simps)
  also have "\<dots> = 2 powi (- 51) * (w / h)"
    by (simp add: u_def power_int_minus)
  finally show "\<bar>?fw / ?fh - w / h\<bar> \<le> 2 powi (- 51) * (w / h)" .
qed


text \<open>
  The roundings of the placement for a page of 2480 by 3508, a tile of 1000 by 1500
  and a margin of 8.
\<close>

lemma double_12_10: "double (12 / 10) = 5404319552844595 / 4503599627370496"
  by (subst double_eval[where e = 0]) (simp_all add: roundHalfEven_def Let_def power_int_minus)

lemma double_margin_8: "double (8 * (5404319552844595 / 4503599627370496)) = 5404319552844595 / 562949953421312"
  by (subst double_eval[where e = 3]) (simp_all add: roundHalfEven_def Let_def power_int_minus)

lemma usable_2480_8: "usable 2480 8 = 5432467050515661 / 2199023255552"
  unfolding usable_def double_12_10 double_margin_8
  by (subst double_eval[where e = 11]) (simp_all add: roundHalfEven_def Let_def power_int_minus)

lemma usable_3508_8: "usable 3508 8 = 7693062957223117 / 2199023255552"
  unfolding usable_def double_12_10 double_margin_8
  by (subst double_eval[where e = 11]) (simp_all add: roundHalfEven_def Let_def power_int_minus)

lemma double_scale_width:
  "double (5432467050515661 / 2199023255552000) = 5562846259728037 / 2251799813685248"
  by (subst double_eval[where e = 1]) (simp_all add: roundHalfEven_def Let_def power_int_minus)

lemma double_scale_height:
  "double (7693062957223117 / 3298534883328000) = 5251797645464315 / 2251799813685248"
  by (subst double_eval[where e = 1]) (simp_all add: roundHalfEven_def Let_def power_int_minus)

lemma double_finalWidth:
  "double (656474705683039375 / 281474976710656) = 5128708638148745 / 2199023255552"
  by (subst double_eval[where e = 11]) (simp_all add: roundHalfEven_def Let_def power_int_minus)

lemma double_finalHeight:
  "double (1969424117049118125 / 562949953421312) = 3846531478611559 / 1099511627776"
  by (subst double_eval[where e = 11]) (simp_all add: roundHalfEven_def Let_def power_int_minus)

lemma double_x:
  "double (324869035620215 / 2199023255552) = 324869035620215 / 2199023255552"
  "double (324869035620215 / 4398046511104) = 324869035620215 / 4398046511104"
  by (subst double_eval[where e = 7], simp_all add: roundHalfEven_def Let_def power_int_minus)
     (subst double_eval[where e = 6], simp_all add: roundHalfEven_def Let_def power_int_minus)

lemma double_y:
  "double (10555311626649 / 1099511627776) = 10555311626649 / 1099511627776"
  "double (10555311626649 / 2199023255552) = 10555311626649 / 2199023255552"
  by (subst double_eval[where e = 3], simp_all add: roundHalfEven_def Let_def power_int_minus)
     (subst double_eval[where e = 2], simp_all add: roundHalfEven_def Let_def power_int_minus)

text \<open>
  C5 as stated fails on doubles: for a page of 2480 by 3508, a tile of 1000 by 1500
  and a margin of 8 the usable height is \<open>7693062957223117 / 2199023255552\<close> (the
  double printed as 3498.4) and the height drawn is
  \<open>3846531478611559 / 1099511627776\<close> (printed as 3498.4000000000005), one unit in
  the last place above it, and above the exact \<open>3508 - 8 * 1.2\<close> as well.
\<close>

theorem addImageToPage_double_counterexample:
  "content (addImageToPage_double \<lparr>pageWidth = 2480, pageHeight = 3508, content = []\<rparr> (0::nat)
              \<lparr>width = 1000, height = 1500\<rparr> 8)
     = [DrawImage 0 (324869035620215 / 4398046511104) (10555311626649 / 2199023255552)
          (5128708638148745 / 2199023255552) (3846531478611559 / 1099511627776)]
   \<and> usable 3508 8 = 7693062957223117 / 2199023255552
   \<and> usable 3508 8 < 3846531478611559 / 1099511627776
   \<and> 3508 - 8 * (12 / 10) < (3846531478611559 / 1099511627776 :: real)"
  by (simp add: addImageToPage_double_def Let_def drawOn_def usable_2480_8 usable_3508_8
      double_scale_width double_scale_height double_finalWidth double_finalHeight double_x double_y)


text \<open>
  C5, amended. \<open>addImageToPage\<close> takes the usable area to be
  \<open>pageWidth - margin * 1.2\<close> by \<open>pageHeight - margin * 1.2\<close>, scales the tile by the one
  factor \<open>scale = min (usableWidth / tileWidth) (usableHeight / tileHeight)\<close>, and draws
  the image with \<open>finalWidth = tileWidth * scale\<close> and
  \<open>finalHeight = tileHeight * scale\<close>, each operation rounded to a double. Up to that
  rounding the aspect is preserved and the image fits: the ratio
  \<open>finalWidth / finalHeight\<close> differs from \<open>tileWidth / tileHeight\<close> by at most the
  fraction \<open>2 powi (- 51)\<close> of it, and \<open>finalWidth\<close> and \<open>finalHeight\<close> exceed the
  usable width and height by at most the factor \<open>(1 + 2 powi (- 53))\<^sup>2\<close>. The tile has a
  positive width and height (integers up to \<open>2 ^ 53\<close>), the usable area is positive
  (not below \<open>2 powi (- 960)\<close>, so that no quotient is subnormal), and the page size
  and the margin stay below \<open>2 ^ 1000\<close> in magnitude (so that no result is
  \<open>Infinity\<close>).
\<close>

theorem addImageToPage_double_scaling:
  assumes "0 < width dims" and "width dims \<le> 2 ^ 53"
    and "0 < height dims" and "height dims \<le> 2 ^ 53"
    and "2 powi (- 960) \<le> usable (pageWidth pg) margin"
    and "2 powi (- 960) \<le> usable (pageHeight pg) margin"
    and "\<bar>pageWidth pg\<bar> \<le> 2 ^ 1000" and "\<bar>pageHeight pg\<bar> \<le> 2 ^ 1000" and "\<bar>margin\<bar> \<le> 2 ^ 1000"
  shows "\<exists>x y finalWidth finalHeight scale.
      content (addImageToPage_double pg img dims margin)
        = content pg @ [DrawImage img x y finalWidth finalHeight]
    \<and> scale = min (double (usable (pageWidth pg) margin / real (width dims)))
                  (double (usable (pageHeight pg) margin / real (height dims)))
    \<and> finalWidth = double (real (width dims) * scale)
    \<and> finalHeight = double (real (height dims) * scale)
    \<and> \<bar>finalWidth / finalHeight - real (width dims) / real (height dims)\<bar>
          \<le> 2 powi (- 51) * (real (width dims) / real (height dims))
    \<and> finalWidth \<le> usable (pageWidth pg) margin * (1 + 2 powi (- 53))\<^sup>2
    \<and> finalHeight \<le> usable (pageHeight pg) margin * (1 + 2 powi (- 53))\<^sup>2"
proof -
  let ?w = "real (width dims)" and ?h = "real (height dims)"
  let ?m = "usable (pageWidth pg) margin" and ?n = "usable (pageHeight pg) margin"
  let ?s = "min (double (?m / ?w)) (double (?n / ?h))"
  let ?fw = "double (?w * ?s)" and ?fh = "double (?h * ?s)"
  have w: "1 \<le> ?w" "?w \<le> 2 ^ 53"
  proof -
    show "1 \<le> ?w" using assms(1) by simp
    have "?w \<le> real (2 ^ 53)" using assms(2) by (simp only: of_nat_le_iff)
    then show "?w \<le> 2 ^ 53" by simp
  qed
  have h: "1 \<le> ?h" "?h \<le> 2 ^ 53"
  proof -
    show "1 \<le> ?h" using assms(3) by simp
    have "?h \<le> real (2 ^ 53)" using assms(4) by (simp only: of_nat_le_iff)
    then show "?h \<le> 2 ^ 53" by simp
  qed
  have "content (addImageToPage_double pg img dims margin) =
      content pg @ [DrawImage img (double (double (pageWidth pg - ?fw) / 2))
                      (double (double (pageHeight pg - ?fh) / 2)) ?fw ?fh]"
    by (simp add: addImageToPage_double_def drawOn_def Let_def)
  moreover have "\<bar>?fw / ?fh - ?w / ?h\<bar> \<le> 2 powi (- 51) * (?w / ?h)"
    using assms(5,6) w h refl by (rule scaled_extent(3))
  moreover have "?fw \<le> ?m * (1 + 2 powi (- 53))\<^sup>2"
    using assms(5,6) w h refl by (rule scaled_extent(1))
  moreover have "?fh \<le> ?n * (1 + 2 powi (- 53))\<^sup>2"
    using assms(5,6) w h refl by (rule scaled_extent(2))
  ultimately show ?thesis by blast
qed

text \<open>The page of 2480 by 3508 with a tile of 1000 by 1500 and a margin of 8.\<close>

theorem addImageToPage_double_scaling_witness:
  "\<exists>x y finalWidth finalHeight.
      content (addImageToPage_double \<lparr>pageWidth = 2480, pageHeight = 3508, content = []\<rparr> (0::nat)
                 \<lparr>width = 1000, height = 1500\<rparr> 8) = [DrawImage 0 x y finalWidth finalHeight]
    \<and> \<bar>finalWidth / finalHeight - 1000 / 1500\<bar> \<le> 2 powi (- 51) * (1000 / 1500)
    \<and> finalWidth \<le> usable 2480 8 * (1 + 2 powi (- 53))\<^sup>2
    \<and> finalHeight \<le> usable 3508 8 * (1 + 2 powi (- 53))\<^sup>2"
proof -
  let ?pg = "\<lparr>pageWidth = 2480, pageHeight = 3508, content = ([] :: nat draw list)\<rparr>"
  let ?dims = "\<lparr>width = 1000, height = 1500\<rparr>"
  have small: "(2::real) powi (- 960) \<le> 1"
    by (simp add: power_int_minus field_simps)
  have a1: "0 < width ?dims" and a2: "width ?dims \<le> 2 ^ 53"
    and a3: "0 < height ?dims" and a4: "height ?dims \<le> 2 ^ 53"
    by simp_all
  have a5: "2 powi (- 960) \<le> usable (pageWidth ?pg) 8"
    using small by (simp add: usable_2480_8)
  have a6: "2 powi (- 960) \<le> usable (pageHeight ?pg) 8"
    using small by (simp add: usable_3508_8)
  have a7: "\<bar>pageWidth ?pg\<bar> \<le> 2 ^ 1000" and a8: "\<bar>pageHeight ?pg\<bar> \<le> 2 ^ 1000"
    and a9: "\<bar>8 :: real\<bar> \<le> 2 ^ 1000"
    by simp_all
  from addImageToPage_double_scaling[OF a1 a2 a3 a4 a5 a6 a7 a8 a9, of 0]
  obtain x y fw fh where
    "content (addImageToPage_double ?pg 0 ?dims 8) = content ?pg @ [DrawImage 0 x y fw fh]"
    "\<bar>fw / fh - real (width ?dims) / real (height ?dims)\<bar>
          \<le> 2 powi (- 51) * (real (width ?dims) / real (height ?dims))"
    "fw \<le> usable (pageWidth ?pg) 8 * (1 + 2 powi (- 53))\<^sup>2"
    "fh \<le> usable (pageHeight ?pg) 8 * (1 + 2 powi (- 53))\<^sup>2"
    by blast
  then have "content (addImageToPage_double ?pg 0 ?dims 8) = [DrawImage 0 x y fw fh]
    \<and> \<bar>fw / fh - 1000 / 1500\<bar> \<le> 2 powi (- 51) * (1000 / 1500)
    \<and> fw \<le> usable 2480 8 * (1 + 2 powi (- 53))\<^sup>2
    \<and> fh \<le> usable 3508 8 * (1 + 2 powi (- 53))\<^sup>2"
    by simp
  then show ?thesis by blast
qed



section \<open>Patterns outside the table of \<open>getGridDimensions\<close>, and the guides\<close>

lemma exampleParts_2x2:
  assumes "getGridDimensions pat = Own \<lparr>rows = 2, cols = 2, paperSize = sheet\<rparr>"
  shows "fst (divideImage rectOf pat d (imageProcessor (exampleApp pat d))) = Inr (exampleParts pat d)"
    and "exampleParts pat d =
     [partInfo (0, 0, 500, 350) \<lparr>rows = 2, cols = 2, paperSize = sheet\<rparr> d 500 350 0 0,
      partInfo (500, 0, 500, 350) \<lparr>rows = 2, cols = 2, paperSize = sheet\<rparr> d 500 350 0 1,
      partInfo (0, 350, 500, 350) \<lparr>rows = 2, cols = 2, paperSize = sheet\<rparr> d 500 350 1 0,
      partInfo (500, 350, 500, 350) \<lparr>rows = 2, cols = 2, paperSize = sheet\<rparr> d 500 350 1 1]"
  using assms
  by (simp_all add: exampleParts_def exampleApp_def divideImage_def rectOf_def)

lemma getGridDimensions_A3_2x2_H:
  "getGridDimensions ''A3_2x2_H'' = Own \<lparr>rows = 2, cols = 2, paperSize = ''A4''\<rparr>"
  by (simp add: getGridDimensions_def js_get_def patterns_def objectPrototypeKeys_def)

text \<open>
  C4. The table of \<open>getGridDimensions\<close> has no entry \<open>A3_2x2_H\<close>, so the pattern
  falls back to \<open>A4_2x2\<close>: the four parts carry the paper size A4, while
  \<open>DIVISION_PATTERNS\<close> gives A3 for this pattern.
\<close>

theorem divideImage_A3_2x2_H_paper:
  "fst (divideImage rectOf ''A3_2x2_H'' 300 (imageProcessor (exampleApp ''A3_2x2_H'' 300)))
     = Inr (exampleParts ''A3_2x2_H'' 300)
   \<and> map part_paperSize (exampleParts ''A3_2x2_H'' 300) = [''A4'', ''A4'', ''A4'', ''A4'']
   \<and> map_of DIVISION_PATTERNS ''A3_2x2_H''
     = Some \<lparr>rows = 2, cols = 2, paperSize = ''A3'', landscape = Some True\<rparr>"
  using exampleParts_2x2[OF getGridDimensions_A3_2x2_H, of 300]
  by (simp add: partInfo_def DIVISION_PATTERNS_def)

text \<open>
  C8. The id \<^verbatim>\<open>toString\<close> is no key of the table, yet \<^verbatim>\<open>patterns['toString']\<close> is the
  function inherited from \<^verbatim>\<open>Object.prototype\<close>, which is truthy: the default pattern is
  not substituted, and \<open>divideImage\<close> returns no part at all (it does not raise).
\<close>

theorem divideImage_inherited_key:
  "map_of patterns ''toString'' = None
   \<and> getGridDimensions ''toString'' = Inherited
   \<and> fst (divideImage rectOf ''toString'' 300 (imageProcessor (exampleApp ''toString'' 300))) = Inr []"
  by (simp add: divideImage_def exampleApp_def getGridDimensions_def js_get_def patterns_def
      objectPrototypeKeys_def)

text \<open>Every other id that is no key of the table gets the default entry.\<close>

lemma getGridDimensions_fallback:
  assumes "map_of patterns pat = None" and "pat \<notin> set objectPrototypeKeys"
  shows "getGridDimensions pat = Own \<lparr>rows = 2, cols = 2, paperSize = ''A4''\<rparr>"
  using assms by (simp add: getGridDimensions_def js_get_def) (simp add: patterns_def)

text \<open>
  C7. On an A4 page with margin 8, \<open>addCuttingGuides\<close> draws four segments of length
  15, two at the corner \<open>(8, 8)\<close> and two at the corner \<open>(2472, 8)\<close>; no segment is
  drawn at the two corners on the edge \<open>y = 3508 - 8\<close>.
\<close>

theorem addCuttingGuides_two_corners:
  "content (addCuttingGuides \<lparr>pageWidth = 2480, pageHeight = 3508, content = ([] :: nat draw list)\<rparr> 8)
     = [DrawLine (8, 8) (23, 8) (rgb (8 / 10) (8 / 10) (8 / 10)),
        DrawLine (8, 8) (8, 23) (rgb (8 / 10) (8 / 10) (8 / 10)),
        DrawLine (2457, 8) (2472, 8) (rgb (8 / 10) (8 / 10) (8 / 10)),
        DrawLine (2472, 8) (2472, 23) (rgb (8 / 10) (8 / 10) (8 / 10))]"
  by (simp add: addCuttingGuides_def drawOn_def Let_def)

section \<open>Claims about the pages of an export\<close>

lemma getGridDimensions_A4_2x2_H:
  "getGridDimensions ''A4_2x2_H'' = Own \<lparr>rows = 2, cols = 2, paperSize = ''A4''\<rparr>"
  by (simp add: getGridDimensions_def js_get_def patterns_def objectPrototypeKeys_def)

lemma exampleExport_2x2:
  assumes "getGridDimensions pat = Own \<lparr>rows = 2, cols = 2, paperSize = sheet\<rparr>"
    and "js_get DIVISION_PATTERNS pat = Own entry"
  shows "exampleExport pat d =
     generatePDF Inr monoFont (exampleParts pat d)
       \<lparr>opt_paperSize = paperSize entry, pattern = Some entry, margins = 8,
                        addGuides = True, addPageNumbers = True\<rparr>"
proof -
  obtain this where "divideImage rectOf pat d (imageProcessor (exampleApp pat d)) =
     (Inr (exampleParts pat d), this)"
    using exampleParts_2x2(1)[OF assms(1), of d]
    by (cases "divideImage rectOf pat d (imageProcessor (exampleApp pat d))") simp
  moreover have "currentFile (exampleApp pat d) = Some ''poster.png''"
    and "currentPattern (exampleApp pat d) = pat" and "currentDpi (exampleApp pat d) = d"
    by (simp_all add: exampleApp_def)
  ultimately show ?thesis
    using assms(2) by (simp add: exampleExport_def exportPDF_def)
qed

lemma DIVISION_PATTERNS_A4_2x2:
  "js_get DIVISION_PATTERNS ''A4_2x2'' = Own \<lparr>rows = 2, cols = 2, paperSize = ''A4'', landscape = Some False\<rparr>"
  by (simp add: js_get_def DIVISION_PATTERNS_def)

lemma PAPER_SIZES_A4:
  "js_get PAPER_SIZES ''A4'' = Own \<lparr>name = ''A4'', width_mm = 210, height_mm = 297, widthPx = 2480, heightPx = 3508\<rparr>"
  by (simp add: js_get_def PAPER_SIZES_def)

text \<open>
  C3, amended. When the paper is an entry of \<open>PAPER_SIZES\<close>, there is at least one
  part and every part can be embedded, \<open>generatePDF\<close> returns one page per part, and
  every page has the entry's \<open>widthPx\<close> by \<open>heightPx\<close>, swapped when the pattern's
  \<open>landscape\<close> flag is true. These are the pixels of the sheet at 300 DPI; the DPI
  of the export does not enter. (Without a part the document holds the one default
  page that \<open>save\<close> adds, lemma \<open>generatePDF_empty\<close>.)
\<close>

theorem generatePDF_page_size:
  assumes "js_get PAPER_SIZES (opt_paperSize opts) = Own sheet"
    and "\<forall>p\<in>set parts. \<not> isl (embedPng (pixels p))"
    and "parts \<noteq> []"
  shows "\<exists>doc. generatePDF embedPng fnt parts opts = Inr doc
      \<and> length doc = length parts
      \<and> (\<forall>pg\<in>set doc.
            pageWidth pg = real (if isLandscape (pattern opts) then heightPx sheet else widthPx sheet)
          \<and> pageHeight pg = real (if isLandscape (pattern opts) then widthPx sheet else heightPx sheet))
      \<and> int (widthPx sheet) = convertMmToPx (real (width_mm sheet)) 300
      \<and> int (heightPx sheet) = convertMmToPx (real (height_mm sheet)) 300"
proof -
  let ?doc = "map (\<lambda>(j, p). pageOf embedPng fnt opts (length parts) j p) (enumerate 0 parts)"
  have "generatePDF embedPng fnt parts opts = Inr ?doc"
    using assms by (rule generatePDF_ok)
  moreover have "length ?doc = length parts" by simp
  moreover have "\<forall>pg\<in>set ?doc.
            pageWidth pg = real (if isLandscape (pattern opts) then heightPx sheet else widthPx sheet)
          \<and> pageHeight pg = real (if isLandscape (pattern opts) then widthPx sheet else heightPx sheet)"
  proof
    fix pg assume "pg \<in> set ?doc"
    then obtain j p where jp: "(j, p) \<in> set (enumerate 0 parts)"
      and pg: "pg = pageOf embedPng fnt opts (length parts) j p"
      by auto
    from jp have "j < length parts" and "p = parts ! j"
      by (simp_all add: in_set_enumerate_eq)
    then have "p \<in> set parts" by simp
    then have "\<not> isl (embedPng (pixels p))" using assms(2) by simp
    with assms(1) show "pageWidth pg = real (if isLandscape (pattern opts) then heightPx sheet else widthPx sheet)
          \<and> pageHeight pg = real (if isLandscape (pattern opts) then widthPx sheet else heightPx sheet)"
      unfolding pg by (intro conjI pageOf_size)
  qed
  moreover have "sheet \<in> snd ` set PAPER_SIZES"
    using assms(1) by (force simp: js_get_def split: option.splits if_splits dest!: map_of_SomeD)
  then have "int (widthPx sheet) = convertMmToPx (real (width_mm sheet)) 300
      \<and> int (heightPx sheet) = convertMmToPx (real (height_mm sheet)) 300"
    by (auto simp: PAPER_SIZES_def convertMmToPx_def)
  ultimately show ?thesis by blast
qed

text \<open>
  C3 as stated fails: an export at 150 DPI of the \<open>A4_2x2\<close> pattern has pages of
  2480 by 3508, while the A4 sheet at 150 DPI is \<open>convertMmToPx 210 150 = 1240\<close> by
  \<open>convertMmToPx 297 150 = 1754\<close> pixels.
\<close>

theorem generatePDF_page_size_counterexample:
  "\<not> isl (exampleExport ''A4_2x2'' 150)
   \<and> map dpi (exampleParts ''A4_2x2'' 150) = [150, 150, 150, 150]
   \<and> map pageWidth (projr (exampleExport ''A4_2x2'' 150)) = [2480, 2480, 2480, 2480]
   \<and> map pageHeight (projr (exampleExport ''A4_2x2'' 150)) = [3508, 3508, 3508, 3508]
   \<and> convertMmToPx 210 150 = 1240
   \<and> convertMmToPx 297 150 = 1754
   \<and> pageWidth (projr (exampleExport ''A4_2x2'' 150) ! 0) \<noteq> real_of_int (convertMmToPx 210 150)"
proof -
  let ?opts = "\<lparr>opt_paperSize = ''A4'',
       pattern = Some \<lparr>rows = 2, cols = 2, paperSize = ''A4'', landscape = Some False\<rparr>,
       margins = 8, addGuides = True, addPageNumbers = True\<rparr>"
  have e: "exampleExport ''A4_2x2'' 150 = generatePDF Inr monoFont (exampleParts ''A4_2x2'' 150) ?opts"
    using exampleExport_2x2[OF getGridDimensions_A4_2x2 DIVISION_PATTERNS_A4_2x2, of 150] by simp
  have ok: "\<forall>p\<in>set (exampleParts ''A4_2x2'' 150). \<not> isl (Inr (pixels p) :: error + nat \<times> nat \<times> nat \<times> nat)"
    by simp
  have paper: "js_get PAPER_SIZES (opt_paperSize ?opts) = Own \<lparr>name = ''A4'', width_mm = 210, height_mm = 297, widthPx = 2480, heightPx = 3508\<rparr>"
    using PAPER_SIZES_A4 by simp
  have g: "generatePDF Inr monoFont (exampleParts ''A4_2x2'' 150) ?opts =
      Inr (map (\<lambda>(j, p). pageOf Inr monoFont ?opts (length (exampleParts ''A4_2x2'' 150)) j p)
             (enumerate 0 (exampleParts ''A4_2x2'' 150)))"
    using paper ok by (rule generatePDF_ok) (simp add: exampleParts_2x2(2)[OF getGridDimensions_A4_2x2])
  have sz: "pageWidth (pageOf Inr monoFont ?opts n j p) = 2480"
           "pageHeight (pageOf Inr monoFont ?opts n j p) = 3508"
    for n j and p :: "(nat \<times> nat \<times> nat \<times> nat) part"
    using pageOf_size[OF paper, of Inr p monoFont n j] by (simp_all add: isLandscape_def)
  have ps: "exampleParts ''A4_2x2'' 150 =
     [partInfo (0, 0, 500, 350) \<lparr>rows = 2, cols = 2, paperSize = ''A4''\<rparr> 150 500 350 0 0,
      partInfo (500, 0, 500, 350) \<lparr>rows = 2, cols = 2, paperSize = ''A4''\<rparr> 150 500 350 0 1,
      partInfo (0, 350, 500, 350) \<lparr>rows = 2, cols = 2, paperSize = ''A4''\<rparr> 150 500 350 1 0,
      partInfo (500, 350, 500, 350) \<lparr>rows = 2, cols = 2, paperSize = ''A4''\<rparr> 150 500 350 1 1]"
    by (rule exampleParts_2x2(2)[OF getGridDimensions_A4_2x2])
  have "\<not> isl (exampleExport ''A4_2x2'' 150)" by (simp add: e g)
  moreover have "map dpi (exampleParts ''A4_2x2'' 150) = [150, 150, 150, 150]"
    by (simp add: ps partInfo_def)
  moreover have "map pageWidth (projr (exampleExport ''A4_2x2'' 150)) = [2480, 2480, 2480, 2480]"
    unfolding e g by (simp add: ps sz)
  moreover have "map pageHeight (projr (exampleExport ''A4_2x2'' 150)) = [3508, 3508, 3508, 3508]"
    unfolding e g by (simp add: ps sz)
  moreover have "convertMmToPx 210 150 = 1240" "convertMmToPx 297 150 = 1754"
    by (simp_all add: convertMmToPx_def)
  moreover have "pageWidth (projr (exampleExport ''A4_2x2'' 150) ! 0) \<noteq> real_of_int (convertMmToPx 210 150)"
    unfolding e g by (simp add: ps sz convertMmToPx_def)
  ultimately show ?thesis by blast
qed

lemma embed_all: "\<forall>p\<in>set parts. \<not> isl (Inr (pixels p) :: error + 'px)"
  by simp

text \<open>The landscape pattern \<open>A4_2x2_H\<close> at 600 DPI: four pages of 3508 by 2480.\<close>

theorem generatePDF_page_size_witness:
  "\<exists>doc. generatePDF Inr monoFont (exampleParts ''A4_2x2_H'' 600)
       \<lparr>opt_paperSize = ''A4'',
        pattern = Some \<lparr>rows = 2, cols = 2, paperSize = ''A4'', landscape = Some True\<rparr>,
        margins = 8, addGuides = True, addPageNumbers = True\<rparr> = Inr doc
     \<and> length doc = 4
     \<and> (\<forall>pg\<in>set doc. pageWidth pg = 3508 \<and> pageHeight pg = 2480)
     \<and> convertMmToPx 210 300 = 2480 \<and> convertMmToPx 297 300 = 3508"
proof -
  let ?opts = "\<lparr>opt_paperSize = ''A4'',
        pattern = Some \<lparr>rows = 2, cols = 2, paperSize = ''A4'', landscape = Some True\<rparr>,
        margins = 8, addGuides = True, addPageNumbers = True\<rparr>"
  have paper: "js_get PAPER_SIZES (opt_paperSize ?opts) = Own \<lparr>name = ''A4'', width_mm = 210,
      height_mm = 297, widthPx = 2480, heightPx = 3508\<rparr>"
    using PAPER_SIZES_A4 by simp
  have len: "length (exampleParts ''A4_2x2_H'' 600) = 4"
    by (simp add: exampleParts_2x2(2)[OF getGridDimensions_A4_2x2_H])
  have ne: "exampleParts ''A4_2x2_H'' 600 \<noteq> []"
    using len by auto
  from generatePDF_page_size[where parts = "exampleParts ''A4_2x2_H'' 600" and embedPng = Inr
      and fnt = monoFont, OF paper embed_all ne]
  show ?thesis
    by (simp add: len isLandscape_def)
qed

text \<open>
  C9, amended. With page numbers enabled, the page of the part at index \<open>i\<close> carries
  exactly two text labels, both of size 10: the page number
  \<^verbatim>\<open>Pagina {i+1} de {total}\<close>, whose right end is 30 units left of the right edge
  (\<open>x = pageWidth - textWidth - 30\<close>) at \<open>y = 20\<close>, and the part information
  \<^verbatim>\<open>Posicion: Fila {row+1}, Columna {col+1} | {paperSize} | {dpi} DPI\<close> at
  \<open>x = 30\<close>, \<open>y = pageHeight - 20\<close>. The labels are Spanish (the first a of
  \<^verbatim>\<open>Pagina\<close> and the last o of \<^verbatim>\<open>Posicion\<close> carry an acute accent); page, row and
  column are counted from one. In the export of four parts the page numbers run from
  1 de 4 to 4 de 4 in the order of the part numbers (the witness).
\<close>

theorem generatePDF_labels:
  assumes "js_get PAPER_SIZES (opt_paperSize opts) = Own sheet"
    and "\<forall>p\<in>set parts. \<not> isl (embedPng (pixels p))"
    and "addPageNumbers opts"
    and "i < length parts"
  shows "\<exists>doc. generatePDF embedPng fnt parts opts = Inr doc
      \<and> length doc = length parts
      \<and> filter isText (content (doc ! i)) =
          [DrawText (pageNumberText (i + 1) (length parts))
             (pageWidth (doc ! i) - fnt (pageNumberText (i + 1) (length parts)) 10 - 30) 20 10
             (rgb (5 / 10) (5 / 10) (5 / 10)),
           DrawText (partInfoText (parts ! i)) 30 (pageHeight (doc ! i) - 20) 10
             (rgb (5 / 10) (5 / 10) (5 / 10))]
      \<and> pageNumberText (i + 1) (length parts) =
          ''P'' @ [CHR 0xE1] @ ''gina '' @ string_of_nat (i + 1) @ '' de ''
            @ string_of_nat (length parts)
      \<and> partInfoText (parts ! i) =
          ''Posici'' @ [CHR 0xF3] @ ''n: Fila '' @ string_of_nat (row (position (parts ! i)) + 1)
            @ '', Columna '' @ string_of_nat (col (position (parts ! i)) + 1)
            @ '' | '' @ part_paperSize (parts ! i) @ '' | '' @ string_of_nat (dpi (parts ! i))
            @ '' DPI''"
proof -
  let ?doc = "map (\<lambda>(j, p). pageOf embedPng fnt opts (length parts) j p) (enumerate 0 parts)"
  have "generatePDF embedPng fnt parts opts = Inr ?doc"
    using assms(1,2) by (rule generatePDF_ok) (use assms(4) in auto)
  moreover have "length ?doc = length parts" by simp
  moreover have nth: "?doc ! i = pageOf embedPng fnt opts (length parts) i (parts ! i)"
    using assms(4) by (rule nth_enumerate_map)
  have "\<not> isl (embedPng (pixels (parts ! i)))"
    using assms(2,4) by simp
  with assms(1) have "filter isText (content (?doc ! i)) =
          [DrawText (pageNumberText (i + 1) (length parts))
             (pageWidth (?doc ! i) - fnt (pageNumberText (i + 1) (length parts)) 10 - 30) 20 10
             (rgb (5 / 10) (5 / 10) (5 / 10)),
           DrawText (partInfoText (parts ! i)) 30 (pageHeight (?doc ! i) - 20) 10
             (rgb (5 / 10) (5 / 10) (5 / 10))]"
    unfolding nth using assms(3) by (simp add: pageOf_texts)
  moreover have "pageNumberText (i + 1) (length parts) =
          ''P'' @ [CHR 0xE1] @ ''gina '' @ string_of_nat (i + 1) @ '' de ''
            @ string_of_nat (length parts)"
    by (simp add: pageNumberText_def)
  moreover have "partInfoText (parts ! i) =
          ''Posici'' @ [CHR 0xF3] @ ''n: Fila '' @ string_of_nat (row (position (parts ! i)) + 1)
            @ '', Columna '' @ string_of_nat (col (position (parts ! i)) + 1)
            @ '' | '' @ part_paperSize (parts ! i) @ '' | '' @ string_of_nat (dpi (parts ! i))
            @ '' DPI''"
    by (simp add: partInfoText_def)
  ultimately show ?thesis by blast
qed

lemma pageOf_labelTexts:
  assumes "js_get PAPER_SIZES (opt_paperSize opts) = Own sheet" and "\<not> isl (embedPng (pixels p))"
  shows "labelTexts (content (pageOf embedPng fnt opts n i p)) =
     (if addPageNumbers opts then [pageNumberText (i + 1) n] else []) @ [partInfoText p]"
  using assms unfolding pageOf_def
  by (cases "embedPng (pixels p)")
     (simp_all add: composePage_def Let_def addImageToPage_def addCuttingGuides_def
        addPageNumber_def addPartInfo_def drawOn_def split: prod.splits)

lemma exampleExport_A4_2x2:
  "exampleExport ''A4_2x2'' d =
     Inr (map (\<lambda>(j, p). pageOf Inr monoFont
                \<lparr>opt_paperSize = ''A4'',
                 pattern = Some \<lparr>rows = 2, cols = 2, paperSize = ''A4'', landscape = Some False\<rparr>,
                 margins = 8, addGuides = True, addPageNumbers = True\<rparr> 4 j p)
            (enumerate 0 (exampleParts ''A4_2x2'' d)))"
proof -
  let ?opts = "\<lparr>opt_paperSize = ''A4'',
       pattern = Some \<lparr>rows = 2, cols = 2, paperSize = ''A4'', landscape = Some False\<rparr>,
       margins = 8, addGuides = True, addPageNumbers = True\<rparr>"
  have "exampleExport ''A4_2x2'' d = generatePDF Inr monoFont (exampleParts ''A4_2x2'' d) ?opts"
    using exampleExport_2x2[OF getGridDimensions_A4_2x2 DIVISION_PATTERNS_A4_2x2, of d] by simp
  moreover have "js_get PAPER_SIZES (opt_paperSize ?opts) = Own \<lparr>name = ''A4'', width_mm = 210,
      height_mm = 297, widthPx = 2480, heightPx = 3508\<rparr>"
    using PAPER_SIZES_A4 by simp
  then have "generatePDF Inr monoFont (exampleParts ''A4_2x2'' d) ?opts =
      Inr (map (\<lambda>(j, p). pageOf Inr monoFont ?opts (length (exampleParts ''A4_2x2'' d)) j p)
             (enumerate 0 (exampleParts ''A4_2x2'' d)))"
    using embed_all by (rule generatePDF_ok) (simp add: exampleParts_2x2(2)[OF getGridDimensions_A4_2x2])
  moreover have "length (exampleParts ''A4_2x2'' d) = 4"
    by (simp add: exampleParts_2x2(2)[OF getGridDimensions_A4_2x2])
  ultimately show ?thesis by simp
qed

text \<open>
  C9 as stated fails: the first page of the export of four parts has the labels
  \<^verbatim>\<open>Pagina 1 de 4\<close> and \<^verbatim>\<open>Posicion: Fila 1, Columna 1 | A4 | 300 DPI\<close> (with the
  accents), and neither \<^verbatim>\<open>Page 1 of 4\<close> nor \<^verbatim>\<open>Position: Row 1, Column 1 | A4 | 300 DPI\<close>.
\<close>

theorem generatePDF_labels_counterexample:
  "\<not> isl (exampleExport ''A4_2x2'' 300)
   \<and> map partNumber (exampleParts ''A4_2x2'' 300) = [1, 2, 3, 4]
   \<and> labelTexts (content (projr (exampleExport ''A4_2x2'' 300) ! 0))
       = [''P'' @ [CHR 0xE1] @ ''gina 1 de 4'',
          ''Posici'' @ [CHR 0xF3] @ ''n: Fila 1, Columna 1 | A4 | 300 DPI'']
   \<and> ''Page 1 of 4'' \<notin> set (labelTexts (content (projr (exampleExport ''A4_2x2'' 300) ! 0)))
   \<and> ''Position: Row 1, Column 1 | A4 | 300 DPI''
        \<notin> set (labelTexts (content (projr (exampleExport ''A4_2x2'' 300) ! 0)))"
proof -
  have paper: "js_get PAPER_SIZES (opt_paperSize \<lparr>opt_paperSize = ''A4'',
       pattern = Some \<lparr>rows = 2, cols = 2, paperSize = ''A4'', landscape = Some False\<rparr>,
       margins = 8, addGuides = True, addPageNumbers = True\<rparr>) = Own \<lparr>name = ''A4'', width_mm = 210,
      height_mm = 297, widthPx = 2480, heightPx = 3508\<rparr>"
    using PAPER_SIZES_A4 by simp
  have ps: "exampleParts ''A4_2x2'' 300 =
     [partInfo (0, 0, 500, 350) \<lparr>rows = 2, cols = 2, paperSize = ''A4''\<rparr> 300 500 350 0 0,
      partInfo (500, 0, 500, 350) \<lparr>rows = 2, cols = 2, paperSize = ''A4''\<rparr> 300 500 350 0 1,
      partInfo (0, 350, 500, 350) \<lparr>rows = 2, cols = 2, paperSize = ''A4''\<rparr> 300 500 350 1 0,
      partInfo (500, 350, 500, 350) \<lparr>rows = 2, cols = 2, paperSize = ''A4''\<rparr> 300 500 350 1 1]"
    by (rule exampleParts_2x2(2)[OF getGridDimensions_A4_2x2])
  have texts: "labelTexts (content (projr (exampleExport ''A4_2x2'' 300) ! 0))
       = [''P'' @ [CHR 0xE1] @ ''gina 1 de 4'',
          ''Posici'' @ [CHR 0xF3] @ ''n: Fila 1, Columna 1 | A4 | 300 DPI'']"
    unfolding exampleExport_A4_2x2 ps
    by (simp add: enumerate_eq_zip pageOf_labelTexts[OF paper] pageNumberText_def partInfoText_def
        partInfo_def digit_def)
  have "\<not> isl (exampleExport ''A4_2x2'' 300)"
    by (simp add: exampleExport_A4_2x2)
  moreover have "map partNumber (exampleParts ''A4_2x2'' 300) = [1, 2, 3, 4]"
    by (simp add: ps partInfo_def)
  moreover note texts
  moreover have "''Page 1 of 4'' \<notin> set (labelTexts (content (projr (exampleExport ''A4_2x2'' 300) ! 0)))"
    unfolding texts by simp
  moreover have "''Position: Row 1, Column 1 | A4 | 300 DPI''
        \<notin> set (labelTexts (content (projr (exampleExport ''A4_2x2'' 300) ! 0)))"
    unfolding texts by simp
  ultimately show ?thesis by blast
qed

theorem generatePDF_labels_witness:
  "\<exists>doc. generatePDF Inr monoFont (exampleParts ''A4_2x2'' 300)
       \<lparr>opt_paperSize = ''A4'',
        pattern = Some \<lparr>rows = 2, cols = 2, paperSize = ''A4'', landscape = Some False\<rparr>,
        margins = 8, addGuides = True, addPageNumbers = True\<rparr> = Inr doc
     \<and> length doc = 4
     \<and> map partNumber (exampleParts ''A4_2x2'' 300) = [1, 2, 3, 4]
     \<and> labelTexts (filter isText (content (doc ! 0)))
          = [''P'' @ [CHR 0xE1] @ ''gina 1 de 4'',
             ''Posici'' @ [CHR 0xF3] @ ''n: Fila 1, Columna 1 | A4 | 300 DPI'']
     \<and> labelTexts (filter isText (content (doc ! 1)))
          = [''P'' @ [CHR 0xE1] @ ''gina 2 de 4'',
             ''Posici'' @ [CHR 0xF3] @ ''n: Fila 1, Columna 2 | A4 | 300 DPI'']
     \<and> labelTexts (filter isText (content (doc ! 2)))
          = [''P'' @ [CHR 0xE1] @ ''gina 3 de 4'',
             ''Posici'' @ [CHR 0xF3] @ ''n: Fila 2, Columna 1 | A4 | 300 DPI'']
     \<and> filter isText (content (doc ! 3))
          = [DrawText (''P'' @ [CHR 0xE1] @ ''gina 4 de 4'') 2372 20 10 (rgb (5 / 10) (5 / 10) (5 / 10)),
             DrawText (''Posici'' @ [CHR 0xF3] @ ''n: Fila 2, Columna 2 | A4 | 300 DPI'') 30 3488 10
               (rgb (5 / 10) (5 / 10) (5 / 10))]"
proof -
  let ?opts = "\<lparr>opt_paperSize = ''A4'',
        pattern = Some \<lparr>rows = 2, cols = 2, paperSize = ''A4'', landscape = Some False\<rparr>,
        margins = 8, addGuides = True, addPageNumbers = True\<rparr>"
  let ?parts = "exampleParts ''A4_2x2'' 300"
  have paper: "js_get PAPER_SIZES (opt_paperSize ?opts) = Own \<lparr>name = ''A4'', width_mm = 210,
      height_mm = 297, widthPx = 2480, heightPx = 3508\<rparr>"
    using PAPER_SIZES_A4 by simp
  have ps: "?parts =
     [partInfo (0, 0, 500, 350) \<lparr>rows = 2, cols = 2, paperSize = ''A4''\<rparr> 300 500 350 0 0,
      partInfo (500, 0, 500, 350) \<lparr>rows = 2, cols = 2, paperSize = ''A4''\<rparr> 300 500 350 0 1,
      partInfo (0, 350, 500, 350) \<lparr>rows = 2, cols = 2, paperSize = ''A4''\<rparr> 300 500 350 1 0,
      partInfo (500, 350, 500, 350) \<lparr>rows = 2, cols = 2, paperSize = ''A4''\<rparr> 300 500 350 1 1]"
    by (rule exampleParts_2x2(2)[OF getGridDimensions_A4_2x2])
  have len: "length ?parts = 4" by (simp add: ps)
  have nums: "addPageNumbers ?opts" by simp
  have nth: "?parts ! 0 = partInfo (0, 0, 500, 350) \<lparr>rows = 2, cols = 2, paperSize = ''A4''\<rparr> 300 500 350 0 0"
    "?parts ! 1 = partInfo (500, 0, 500, 350) \<lparr>rows = 2, cols = 2, paperSize = ''A4''\<rparr> 300 500 350 0 1"
    "?parts ! 2 = partInfo (0, 350, 500, 350) \<lparr>rows = 2, cols = 2, paperSize = ''A4''\<rparr> 300 500 350 1 0"
    "?parts ! 3 = partInfo (500, 350, 500, 350) \<lparr>rows = 2, cols = 2, paperSize = ''A4''\<rparr> 300 500 350 1 1"
    by (simp_all add: ps)
  have pn: "pageNumberText (0 + 1) 4 = ''P'' @ [CHR 0xE1] @ ''gina 1 de 4''"
    "pageNumberText (1 + 1) 4 = ''P'' @ [CHR 0xE1] @ ''gina 2 de 4''"
    "pageNumberText (2 + 1) 4 = ''P'' @ [CHR 0xE1] @ ''gina 3 de 4''"
    "pageNumberText (3 + 1) 4 = ''P'' @ [CHR 0xE1] @ ''gina 4 de 4''"
    by (simp_all add: pageNumberText_def digit_def)
  have pinfo: "partInfoText (?parts ! 0) = ''Posici'' @ [CHR 0xF3] @ ''n: Fila 1, Columna 1 | A4 | 300 DPI''"
    "partInfoText (?parts ! 1) = ''Posici'' @ [CHR 0xF3] @ ''n: Fila 1, Columna 2 | A4 | 300 DPI''"
    "partInfoText (?parts ! 2) = ''Posici'' @ [CHR 0xF3] @ ''n: Fila 2, Columna 1 | A4 | 300 DPI''"
    "partInfoText (?parts ! 3) = ''Posici'' @ [CHR 0xF3] @ ''n: Fila 2, Columna 2 | A4 | 300 DPI''"
    unfolding nth by (simp_all add: partInfoText_def partInfo_def digit_def)
  have gen: "generatePDF Inr monoFont ?parts ?opts =
      Inr (map (\<lambda>(j, p). pageOf Inr monoFont ?opts (length ?parts) j p) (enumerate 0 ?parts))"
    using paper embed_all by (rule generatePDF_ok) (simp add: ps)
  then obtain doc where doc: "generatePDF Inr monoFont ?parts ?opts = Inr doc"
    and "length doc = length ?parts"
    by simp
  then have "length doc = 4" by (simp only: len)
  have label: "filter isText (content (doc ! i)) =
          [DrawText (pageNumberText (i + 1) (length ?parts))
             (pageWidth (doc ! i) - monoFont (pageNumberText (i + 1) (length ?parts)) 10 - 30) 20 10
             (rgb (5 / 10) (5 / 10) (5 / 10)),
           DrawText (partInfoText (?parts ! i)) 30 (pageHeight (doc ! i) - 20) 10
             (rgb (5 / 10) (5 / 10) (5 / 10))]" if "i < length ?parts" for i
  proof -
    from generatePDF_labels[where fnt = monoFont, OF paper embed_all nums that]
    obtain doc' where "generatePDF Inr monoFont ?parts ?opts = Inr doc'"
      and l: "filter isText (content (doc' ! i)) =
          [DrawText (pageNumberText (i + 1) (length ?parts))
             (pageWidth (doc' ! i) - monoFont (pageNumberText (i + 1) (length ?parts)) 10 - 30) 20 10
             (rgb (5 / 10) (5 / 10) (5 / 10)),
           DrawText (partInfoText (?parts ! i)) 30 (pageHeight (doc' ! i) - 20) 10
             (rgb (5 / 10) (5 / 10) (5 / 10))]"
      by blast
    with doc have "doc' = doc" by simp
    with l show ?thesis by simp
  qed
  have size3: "pageWidth (doc ! 3) = 2480" "pageHeight (doc ! 3) = 3508"
  proof -
    have "doc = map (\<lambda>(j, p). pageOf Inr monoFont ?opts (length ?parts) j p) (enumerate 0 ?parts)"
      using gen doc by simp
    moreover have "3 < length ?parts" by (simp add: len)
    ultimately have d3: "doc ! 3 = pageOf Inr monoFont ?opts (length ?parts) 3 (?parts ! 3)"
      by (simp only: nth_enumerate_map)
    have "\<not> isl (Inr (pixels (?parts ! 3)) :: error + nat \<times> nat \<times> nat \<times> nat)" by simp
    from pageOf_size[where embedPng = Inr and fnt = monoFont, OF paper this]
    show "pageWidth (doc ! 3) = 2480" "pageHeight (doc ! 3) = 3508"
      unfolding d3 by (simp_all add: isLandscape_def)
  qed
  have f1: "map partNumber ?parts = [1, 2, 3, 4]"
    by (simp add: ps partInfo_def)
  have f2: "labelTexts (filter isText (content (doc ! 0)))
          = [''P'' @ [CHR 0xE1] @ ''gina 1 de 4'',
             ''Posici'' @ [CHR 0xF3] @ ''n: Fila 1, Columna 1 | A4 | 300 DPI'']"
    using label[of 0] pn pinfo by (simp add: len)
  have f3: "labelTexts (filter isText (content (doc ! 1)))
          = [''P'' @ [CHR 0xE1] @ ''gina 2 de 4'',
             ''Posici'' @ [CHR 0xF3] @ ''n: Fila 1, Columna 2 | A4 | 300 DPI'']"
    using label[of 1] pn pinfo by (simp add: len)
  have f4: "labelTexts (filter isText (content (doc ! 2)))
          = [''P'' @ [CHR 0xE1] @ ''gina 3 de 4'',
             ''Posici'' @ [CHR 0xF3] @ ''n: Fila 2, Columna 1 | A4 | 300 DPI'']"
    using label[of 2] pn pinfo by (simp add: len)
  have f5: "filter isText (content (doc ! 3))
          = [DrawText (''P'' @ [CHR 0xE1] @ ''gina 4 de 4'') 2372 20 10 (rgb (5 / 10) (5 / 10) (5 / 10)),
             DrawText (''Posici'' @ [CHR 0xF3] @ ''n: Fila 2, Columna 2 | A4 | 300 DPI'') 30 3488 10
               (rgb (5 / 10) (5 / 10) (5 / 10))]"
    using label[of 3] size3 pn pinfo by (simp add: len monoFont_def)
  show ?thesis
    by (intro exI[of _ doc] conjI doc \<open>length doc = 4\<close> f1 f2 f3 f4 f5)
qed

end
